theory Spec2Isabelle
  imports
    Complex_Main
    "HOL-Library.Char_ord"
    "HOL-Library.List_Lexorder"
    "HOL-Library.Multiset"
    "HOL-Library.Product_Lexorder"
begin

section \<open>Numbers of the report pipeline\<close>

text \<open>
  The measures of the dataset are finite numbers. The pipeline of
  \<^verbatim>\<open>retail_performance_analysis.py\<close> adds them up and then divides, and a pandas
  division never raises: a zero divisor gives \<^verbatim>\<open>inf\<close>, \<^verbatim>\<open>-inf\<close> or \<^verbatim>\<open>nan\<close>. A
  derived column is therefore a value of \<open>fnum\<close>: a finite number, one of the two
  infinities, or NaN. Finite arithmetic is exact here (a real number stands for the
  double that approximates it, and the sign of a zero is not kept); only the section on
  growth rates looks at binary64 rounding, through an explicit rounding function.
\<close>

datatype fnum = Finite real | PosInf | NegInf | NaN

fun fdiv :: "fnum \<Rightarrow> fnum \<Rightarrow> fnum" where
  "fdiv NaN _ = NaN"
| "fdiv _ NaN = NaN"
| "fdiv (Finite a) (Finite b) =
     (if b \<noteq> 0 then Finite (a / b)
      else if a > 0 then PosInf else if a < 0 then NegInf else NaN)"
| "fdiv (Finite a) PosInf = Finite 0"
| "fdiv (Finite a) NegInf = Finite 0"
| "fdiv PosInf (Finite b) = (if b < 0 then NegInf else PosInf)"
| "fdiv NegInf (Finite b) = (if b < 0 then PosInf else NegInf)"
| "fdiv PosInf PosInf = NaN"
| "fdiv PosInf NegInf = NaN"
| "fdiv NegInf PosInf = NaN"
| "fdiv NegInf NegInf = NaN"

fun fmul :: "fnum \<Rightarrow> fnum \<Rightarrow> fnum" where
  "fmul NaN _ = NaN"
| "fmul _ NaN = NaN"
| "fmul (Finite a) (Finite b) = Finite (a * b)"
| "fmul (Finite a) PosInf = (if a = 0 then NaN else if a > 0 then PosInf else NegInf)"
| "fmul (Finite a) NegInf = (if a = 0 then NaN else if a > 0 then NegInf else PosInf)"
| "fmul PosInf (Finite b) = (if b = 0 then NaN else if b > 0 then PosInf else NegInf)"
| "fmul NegInf (Finite b) = (if b = 0 then NaN else if b > 0 then NegInf else PosInf)"
| "fmul PosInf PosInf = PosInf"
| "fmul PosInf NegInf = NegInf"
| "fmul NegInf PosInf = NegInf"
| "fmul NegInf NegInf = PosInf"

fun fsub :: "fnum \<Rightarrow> fnum \<Rightarrow> fnum" where
  "fsub NaN _ = NaN"
| "fsub _ NaN = NaN"
| "fsub (Finite a) (Finite b) = Finite (a - b)"
| "fsub (Finite a) PosInf = NegInf"
| "fsub (Finite a) NegInf = PosInf"
| "fsub PosInf (Finite b) = PosInf"
| "fsub NegInf (Finite b) = NegInf"
| "fsub PosInf PosInf = NaN"
| "fsub PosInf NegInf = PosInf"
| "fsub NegInf PosInf = NegInf"
| "fsub NegInf NegInf = NaN"

text \<open>Python's \<^verbatim>\<open>a > b\<close> on floats: every comparison with NaN is false.\<close>

fun fgt :: "fnum \<Rightarrow> fnum \<Rightarrow> bool" where
  "fgt NaN _ = False"
| "fgt _ NaN = False"
| "fgt (Finite a) (Finite b) = (a > b)"
| "fgt (Finite a) PosInf = False"
| "fgt (Finite a) NegInf = True"
| "fgt PosInf (Finite b) = True"
| "fgt NegInf (Finite b) = False"
| "fgt PosInf PosInf = False"
| "fgt PosInf NegInf = True"
| "fgt NegInf PosInf = False"
| "fgt NegInf NegInf = False"

definition flt :: "fnum \<Rightarrow> fnum \<Rightarrow> bool" where
  "flt a b = fgt b a"


text \<open>
  \<^verbatim>\<open>.round(d)\<close> is numpy's rounding: the value times \<open>10^d\<close>, rounded to the nearest
  integer with halves going to the even neighbour, divided by \<open>10^d\<close>. Infinities and
  NaN pass through.
\<close>

definition rint :: "real \<Rightarrow> int" where
  "rint x =
     (let f = \<lfloor>x\<rfloor>; d = x - of_int f
      in if d < 1 / 2 then f else if d > 1 / 2 then f + 1
         else if even f then f else f + 1)"

definition round_dec :: "nat \<Rightarrow> real \<Rightarrow> real" where
  "round_dec d x = of_int (rint (x * 10 ^ d)) / 10 ^ d"

fun fround :: "nat \<Rightarrow> fnum \<Rightarrow> fnum" where
  "fround d (Finite a) = Finite (round_dec d a)"
| "fround d PosInf = PosInf"
| "fround d NegInf = NegInf"
| "fround d NaN = NaN"

text \<open>
  \<^verbatim>\<open>Series.mean()\<close>: the sum over the count; the mean of no value at all is NaN.
\<close>

definition mean :: "real list \<Rightarrow> fnum" where
  "mean xs = fdiv (Finite (sum_list xs)) (Finite (real (length xs)))"

text \<open>
  The exceptions that the modelled lines can raise. A result of type \<open>error + 'a\<close> is
  \<open>Inl\<close> of the exception when the line raises and \<open>Inr\<close> of the value otherwise.
\<close>

datatype error = ValueError | ZeroDivisionError | TypeError | AttributeError

section \<open>The dataset\<close>

text \<open>
  One row of the CSV file: a (store, month) observation. A cell of a categorical column
  is a string or missing (\<open>None\<close>, which \<^verbatim>\<open>read_csv\<close> gives for an empty cell);
  \<^verbatim>\<open>year\<close> and \<^verbatim>\<open>month\<close>, from which the constructor builds the date, and the two
  counts are integers, the other measures are finite numbers. A dataset is the list of
  its rows; the dataset without rows is the one case in which pandas gives the columns
  the dtype \<^verbatim>\<open>object\<close>, and some lines of the source raise on it.
\<close>

record row =
  store_id :: "string option"
  chain_name :: "string option"
  category :: "string option"
  region :: "string option"
  tier :: "string option"
  year :: int
  month :: int
  sales_amount :: real
  net_profit :: real
  gross_margin_pct :: real
  net_margin_pct :: real
  customer_count :: int
  avg_basket_value :: real
  inventory_turnover_ratio :: real
  customer_satisfaction_score :: real
  total_items_sold :: int

type_synonym dataset = "row list"

subsection \<open>Grouped reduction\<close>

text \<open>
  \<^verbatim>\<open>data.groupby(key)\<close> with pandas' default \<^verbatim>\<open>dropna=True\<close>: the rows whose key is
  missing belong to no group; there is one group per distinct key value that is present,
  the groups are in ascending key order (pandas sorts the keys), and each group holds
  the rows of that key in their original order. A key of several columns is missing when
  one of the columns is. \<^verbatim>\<open>nunique\<close>, with the same default, counts the distinct
  values of a column that are present.
\<close>

fun present :: "'a option list \<Rightarrow> 'a list" where
  "present [] = []"
| "present (None # xs) = present xs"
| "present (Some x # xs) = x # present xs"

definition group_keys :: "('r \<Rightarrow> 'k::linorder option) \<Rightarrow> 'r list \<Rightarrow> 'k list" where
  "group_keys key data = sort (remdups (present (map key data)))"

definition group_rows :: "('r \<Rightarrow> 'k option) \<Rightarrow> 'r list \<Rightarrow> 'k \<Rightarrow> 'r list" where
  "group_rows key data k = filter (\<lambda>r. key r = Some k) data"

definition groupby :: "('r \<Rightarrow> 'k::linorder option) \<Rightarrow> 'r list \<Rightarrow> ('k \<times> 'r list) list" where
  "groupby key data = map (\<lambda>k. (k, group_rows key data k)) (group_keys key data)"

definition nunique :: "'a option list \<Rightarrow> nat" where
  "nunique xs = length (remdups (present xs))"

text \<open>The keys of the monthly, the seasonal and the store table.\<close>

definition year_month_key :: "row \<Rightarrow> (int \<times> int) option" where
  "year_month_key r = Some (year r, month r)"

definition month_key :: "row \<Rightarrow> int option" where
  "month_key r = Some (month r)"

definition store_key :: "row \<Rightarrow> (string \<times> string \<times> string) option" where
  "store_key r =
     (case (store_id r, chain_name r, tier r) of
        (Some s, Some c, Some t) \<Rightarrow> Some (s, c, t)
      | _ \<Rightarrow> None)"

definition col_sum :: "('r \<Rightarrow> real) \<Rightarrow> 'r list \<Rightarrow> real" where
  "col_sum f rows = sum_list (map f rows)"

definition col_sum_int :: "('r \<Rightarrow> int) \<Rightarrow> 'r list \<Rightarrow> int" where
  "col_sum_int f rows = sum_list (map f rows)"

definition col_mean :: "('r \<Rightarrow> real) \<Rightarrow> 'r list \<Rightarrow> fnum" where
  "col_mean f rows = mean (map f rows)"

section \<open>financial_analysis\<close>

text \<open>The overall figures (lines 49 to 57 of the source).\<close>

definition total_revenue :: "dataset \<Rightarrow> real" where
  "total_revenue data = col_sum sales_amount data"

definition total_profit :: "dataset \<Rightarrow> real" where
  "total_profit data = col_sum net_profit data"

definition avg_margin :: "dataset \<Rightarrow> fnum" where
  "avg_margin data = col_mean net_margin_pct data"

text \<open>
  Line 56 divides the two sums with Python's \<^verbatim>\<open>/\<close>. On a dataset with rows they are
  numpy numbers and the division does not raise; on the dataset without rows both sums
  are the Python integer 0 and the division raises \<^verbatim>\<open>ZeroDivisionError\<close>.
\<close>

definition overall_margin :: "dataset \<Rightarrow> error + fnum" where
  "overall_margin data =
     (if data = [] then Inl ZeroDivisionError
      else Inr (fmul (fdiv (Finite (total_profit data)) (Finite (total_revenue data)))
                  (Finite 100)))"

text \<open>
  The chain table (lines 60 to 72): \<open>chain_agg\<close> is the value of
  \<^verbatim>\<open>groupby('chain_name').agg({...})\<close>, \<open>chain_round\<close> the \<^verbatim>\<open>.round(2)\<close> applied to
  it (integer columns are unchanged by it), and \<open>chain_performance\<close> adds the two
  derived columns.
\<close>

record chain_row =
  Chain :: string
  Total_Sales :: real
  Avg_Sales :: fnum
  Total_Profit :: real
  Avg_Margin :: fnum
  Total_Customers :: int
  Store_Count :: nat

record chain_perf_row = chain_row +
  Sales_Crores :: real
  ROI_Score :: fnum

fun chain_group :: "string \<times> row list \<Rightarrow> chain_row" where
  "chain_group (k, rows) =
     \<lparr>Chain = k,
      Total_Sales = col_sum sales_amount rows,
      Avg_Sales = col_mean sales_amount rows,
      Total_Profit = col_sum net_profit rows,
      Avg_Margin = col_mean net_margin_pct rows,
      Total_Customers = col_sum_int customer_count rows,
      Store_Count = nunique (map store_id rows)\<rparr>"

definition chain_agg :: "dataset \<Rightarrow> chain_row list" where
  "chain_agg data = map chain_group (groupby chain_name data)"

definition chain_round :: "chain_row \<Rightarrow> chain_row" where
  "chain_round r =
     r\<lparr>Total_Sales := round_dec 2 (Total_Sales r),
       Avg_Sales := fround 2 (Avg_Sales r),
       Total_Profit := round_dec 2 (Total_Profit r),
       Avg_Margin := fround 2 (Avg_Margin r)\<rparr>"

definition chain_derive :: "chain_row \<Rightarrow> chain_perf_row" where
  "chain_derive r =
     chain_row.extend r
       \<lparr>Sales_Crores = round_dec 1 (Total_Sales r / 10000000),
        ROI_Score =
          fround 2
            (fdiv (fmul (Avg_Margin r) (Finite (of_int (Total_Customers r))))
               (Finite 100000))\<rparr>"

definition chain_performance :: "dataset \<Rightarrow> chain_perf_row list" where
  "chain_performance data = map (chain_derive \<circ> chain_round) (chain_agg data)"

section \<open>category_analysis\<close>

text \<open>
  The category table (lines 85 to 97): the grouped reduction rounded to two decimals,
  then the two share columns, each a ratio to the sum of the (rounded) column, times 100,
  rounded to one decimal.
\<close>

record category_row =
  Category :: string
  cat_sales :: real
  cat_profit :: real
  cat_gross_margin :: fnum
  cat_net_margin :: fnum
  cat_customers :: int
  cat_turnover :: fnum

record category_share_row = category_row +
  Sales_Share :: fnum
  Profit_Contribution :: fnum

fun category_group :: "string \<times> row list \<Rightarrow> category_row" where
  "category_group (k, rows) =
     \<lparr>Category = k,
      cat_sales = round_dec 2 (col_sum sales_amount rows),
      cat_profit = round_dec 2 (col_sum net_profit rows),
      cat_gross_margin = fround 2 (col_mean gross_margin_pct rows),
      cat_net_margin = fround 2 (col_mean net_margin_pct rows),
      cat_customers = col_sum_int customer_count rows,
      cat_turnover = fround 2 (col_mean inventory_turnover_ratio rows)\<rparr>"

definition category_agg :: "dataset \<Rightarrow> category_row list" where
  "category_agg data = map category_group (groupby category data)"

definition share_pct :: "real \<Rightarrow> real \<Rightarrow> fnum" where
  "share_pct part whole = fround 1 (fmul (fdiv (Finite part) (Finite whole)) (Finite 100))"

definition category_metrics :: "dataset \<Rightarrow> category_share_row list" where
  "category_metrics data =
     (let tab = category_agg data;
          sales_total = col_sum cat_sales tab;
          profit_total = col_sum cat_profit tab
      in map (\<lambda>r. category_row.extend r
                 \<lparr>Sales_Share = share_pct (cat_sales r) sales_total,
                  Profit_Contribution = share_pct (cat_profit r) profit_total\<rparr>) tab)"

section \<open>regional_analysis\<close>

text \<open>
  The region table (lines 111 to 121): sums rounded to whole numbers, the number of
  distinct stores, then sales per store (rounded to a whole number) and the profit
  margin (rounded to two decimals), both computed from the rounded columns.
\<close>

record region_row =
  Region :: string
  reg_sales :: real
  reg_profit :: real
  reg_stores :: nat
  reg_customers :: int

record region_metric_row = region_row +
  Sales_Per_Store :: fnum
  Profit_Margin :: fnum

fun region_group :: "string \<times> row list \<Rightarrow> region_row" where
  "region_group (k, rows) =
     \<lparr>Region = k,
      reg_sales = round_dec 0 (col_sum sales_amount rows),
      reg_profit = round_dec 0 (col_sum net_profit rows),
      reg_stores = nunique (map store_id rows),
      reg_customers = col_sum_int customer_count rows\<rparr>"

definition region_agg :: "dataset \<Rightarrow> region_row list" where
  "region_agg data = map region_group (groupby region data)"

definition region_derive :: "region_row \<Rightarrow> region_metric_row" where
  "region_derive r =
     region_row.extend r
       \<lparr>Sales_Per_Store =
          fround 0 (fdiv (Finite (reg_sales r)) (Finite (real (reg_stores r)))),
        Profit_Margin =
          fround 2 (fmul (fdiv (Finite (reg_profit r)) (Finite (reg_sales r))) (Finite 100))\<rparr>"

definition regional_metrics :: "dataset \<Rightarrow> region_metric_row list" where
  "regional_metrics data = map region_derive (region_agg data)"

text \<open>The report lines print amounts in crores and in millions (lines 54, 125, 163).\<close>

definition crores :: "real \<Rightarrow> real" where
  "crores amount = amount / 10000000"

definition millions :: "real \<Rightarrow> real" where
  "millions amount = amount / 1000000"

section \<open>time_series_analysis\<close>

text \<open>
  \<^verbatim>\<open>Series.pct_change()\<close> is \<^verbatim>\<open>data / data.shift(1) - 1\<close>: the first entry has no
  predecessor and is NaN. The growth columns multiply it by 100. Three floating-point
  operations make up a growth value; \<open>rnd\<close> is the rounding applied to the result of
  each: the identity for exact arithmetic, \<open>b64\<close> for binary64.
\<close>

fun frnd :: "(real \<Rightarrow> real) \<Rightarrow> fnum \<Rightarrow> fnum" where
  "frnd rnd (Finite a) = Finite (rnd a)"
| "frnd rnd PosInf = PosInf"
| "frnd rnd NegInf = NegInf"
| "frnd rnd NaN = NaN"

definition shift1 :: "fnum list \<Rightarrow> fnum list" where
  "shift1 xs = (if xs = [] then [] else NaN # butlast xs)"

definition pct_change :: "(real \<Rightarrow> real) \<Rightarrow> fnum list \<Rightarrow> fnum list" where
  "pct_change rnd xs =
     map (\<lambda>(x, p). frnd rnd (fsub (frnd rnd (fdiv x p)) (Finite 1))) (zip xs (shift1 xs))"

definition growth_pct :: "(real \<Rightarrow> real) \<Rightarrow> real list \<Rightarrow> fnum list" where
  "growth_pct rnd vals =
     map (\<lambda>g. frnd rnd (fmul g (Finite 100))) (pct_change rnd (map Finite vals))"

text \<open>
  Rounding to binary64 in the normal range (overflow and subnormal numbers are left
  out): the number is scaled by the unit in the last place of its binade, so that the
  significand has 53 bits, and rounded to the nearest integer, halves to even.
  \<open>binade n x\<close> searches the exponent \<open>e\<close> with \<open>2^e \<le> x < 2^(e+1)\<close> in at most \<open>n\<close>
  steps; the exponents of binary64 lie within 1100 of zero.
\<close>

fun binade :: "nat \<Rightarrow> real \<Rightarrow> int" where
  "binade 0 x = 0"
| "binade (Suc n) x =
     (if x \<ge> 2 then binade n (x / 2) + 1
      else if x < 1 then binade n (x * 2) - 1
      else 0)"

definition pow2 :: "int \<Rightarrow> real" where
  "pow2 e = (if 0 \<le> e then 2 ^ nat e else 1 / 2 ^ nat (- e))"

definition b64 :: "real \<Rightarrow> real" where
  "b64 x =
     (if x = 0 then 0
      else let u = pow2 (binade 1100 \<bar>x\<bar> - 52)
           in of_int (rint (x / u)) * u)"

text \<open>
  The monthly table (lines 146 to 157), without the text column \<^verbatim>\<open>month_year\<close>. The
  groups are the (year, month) pairs in ascending order, which is chronological order.
\<close>

record month_row =
  m_year :: int
  m_month :: int
  m_sales :: real
  m_profit :: real
  m_customers :: int

record month_trend_row = month_row +
  m_profit_margin :: fnum
  sales_growth :: fnum
  customer_growth :: fnum

fun month_group :: "(int \<times> int) \<times> row list \<Rightarrow> month_row" where
  "month_group (k, rows) =
     \<lparr>m_year = fst k,
      m_month = snd k,
      m_sales = col_sum sales_amount rows,
      m_profit = col_sum net_profit rows,
      m_customers = col_sum_int customer_count rows\<rparr>"

definition monthly_agg :: "dataset \<Rightarrow> month_row list" where
  "monthly_agg data = map month_group (groupby year_month_key data)"

definition monthly_trends :: "(real \<Rightarrow> real) \<Rightarrow> dataset \<Rightarrow> month_trend_row list" where
  "monthly_trends rnd data =
     (let tab = monthly_agg data;
          sg = growth_pct rnd (map m_sales tab);
          cg = growth_pct rnd (map (\<lambda>r. of_int (m_customers r)) tab)
      in map (\<lambda>(r, s, c). month_row.extend r
                 \<lparr>m_profit_margin =
                    fround 2 (fmul (fdiv (Finite (m_profit r)) (Finite (m_sales r))) (Finite 100)),
                  sales_growth = s,
                  customer_growth = c\<rparr>)
           (zip tab (zip sg cg)))"

text \<open>
  The seasonal part (lines 166 to 168): the mean of \<^verbatim>\<open>sales_amount\<close> per calendar
  month, over all years, and the labels of its largest and smallest value.
  \<^verbatim>\<open>idxmax\<close> and \<^verbatim>\<open>idxmin\<close> skip NaN, return the label of the first occurrence of the
  extreme value, and raise \<^verbatim>\<open>ValueError\<close> when there is nothing to choose from.
\<close>

definition seasonal_performance :: "dataset \<Rightarrow> (int \<times> fnum) list" where
  "seasonal_performance data =
     map (\<lambda>(k, rows). (k, col_mean sales_amount rows)) (groupby month_key data)"

fun first_best :: "(fnum \<Rightarrow> fnum \<Rightarrow> bool) \<Rightarrow> 'k \<times> fnum \<Rightarrow> ('k \<times> fnum) list \<Rightarrow> 'k" where
  "first_best better (bk, bv) [] = bk"
| "first_best better (bk, bv) ((k, v) # rest) =
     (if better v bv then first_best better (k, v) rest
      else first_best better (bk, bv) rest)"

definition idx_extreme :: "(fnum \<Rightarrow> fnum \<Rightarrow> bool) \<Rightarrow> ('k \<times> fnum) list \<Rightarrow> error + 'k" where
  "idx_extreme better s =
     (case filter (\<lambda>(k, v). v \<noteq> NaN) s of
        [] \<Rightarrow> Inl ValueError
      | b # rest \<Rightarrow> Inr (first_best better b rest))"

definition idxmax :: "('k \<times> fnum) list \<Rightarrow> error + 'k" where
  "idxmax s = idx_extreme fgt s"

definition idxmin :: "('k \<times> fnum) list \<Rightarrow> error + 'k" where
  "idxmin s = idx_extreme flt s"

definition peak_month :: "dataset \<Rightarrow> error + int" where
  "peak_month data = idxmax (seasonal_performance data)"

definition low_month :: "dataset \<Rightarrow> error + int" where
  "low_month data = idxmin (seasonal_performance data)"

section \<open>operational_analysis\<close>

text \<open>
  The store table (lines 181 to 193): one row per (store, chain, tier) triple, in
  ascending order of the triple; the sums and means are not rounded, the two derived
  columns are.
\<close>

record store_row =
  st_store :: string
  st_chain :: string
  st_tier :: string
  st_sales :: real
  st_profit :: real
  st_customers :: int
  st_items :: int
  st_turnover :: fnum
  st_satisfaction :: fnum

record store_eff_row = store_row +
  sales_per_customer :: fnum
  profit_margin :: fnum

fun store_group :: "(string \<times> string \<times> string) \<times> row list \<Rightarrow> store_row" where
  "store_group (k, rows) =
     \<lparr>st_store = fst k,
      st_chain = fst (snd k),
      st_tier = snd (snd k),
      st_sales = col_sum sales_amount rows,
      st_profit = col_sum net_profit rows,
      st_customers = col_sum_int customer_count rows,
      st_items = col_sum_int total_items_sold rows,
      st_turnover = col_mean inventory_turnover_ratio rows,
      st_satisfaction = col_mean customer_satisfaction_score rows\<rparr>"

definition store_agg :: "dataset \<Rightarrow> store_row list" where
  "store_agg data = map store_group (groupby store_key data)"

definition store_derive :: "store_row \<Rightarrow> store_eff_row" where
  "store_derive r =
     store_row.extend r
       \<lparr>sales_per_customer =
          fround 0 (fdiv (Finite (st_sales r)) (Finite (of_int (st_customers r)))),
        profit_margin =
          fround 2 (fmul (fdiv (Finite (st_profit r)) (Finite (st_sales r))) (Finite 100))\<rparr>"

definition store_efficiency :: "dataset \<Rightarrow> store_eff_row list" where
  "store_efficiency data = map store_derive (store_agg data)"

text \<open>
  \<^verbatim>\<open>DataFrame.nsmallest(n, column)\<close> with pandas' default \<^verbatim>\<open>keep='first'\<close>: the rows
  whose value is NaN are set aside, the others are sorted by a stable sort on the value,
  the NaN rows are put behind them in their original order, and the first \<open>n\<close> rows of
  that are the result. \<^verbatim>\<open>nlargest\<close> does the same on the negated values. \<open>fkey\<close>
  places the values that can be compared on a line.
\<close>

fun fneg :: "fnum \<Rightarrow> fnum" where
  "fneg (Finite a) = Finite (- a)"
| "fneg PosInf = NegInf"
| "fneg NegInf = PosInf"
| "fneg NaN = NaN"

fun fkey :: "fnum \<Rightarrow> int \<times> real" where
  "fkey NegInf = (- 1, 0)"
| "fkey (Finite a) = (0, a)"
| "fkey PosInf = (1, 0)"
| "fkey NaN = (2, 0)"

definition nsmallest :: "nat \<Rightarrow> ('r \<Rightarrow> fnum) \<Rightarrow> 'r list \<Rightarrow> 'r list" where
  "nsmallest n col rows =
     take n (sort_key (\<lambda>r. fkey (col r)) (filter (\<lambda>r. col r \<noteq> NaN) rows)
             @ filter (\<lambda>r. col r = NaN) rows)"

definition nlargest :: "nat \<Rightarrow> ('r \<Rightarrow> fnum) \<Rightarrow> 'r list \<Rightarrow> 'r list" where
  "nlargest n col rows = nsmallest n (\<lambda>r. fneg (col r)) rows"

text \<open>
  Lines 196 and 202. On the dataset without rows the margin column has the dtype
  \<^verbatim>\<open>object\<close>, and both methods raise \<^verbatim>\<open>TypeError\<close>.
\<close>

definition top_stores :: "dataset \<Rightarrow> error + store_eff_row list" where
  "top_stores data =
     (if data = [] then Inl TypeError
      else Inr (nlargest 5 profit_margin (store_efficiency data)))"

definition bottom_stores :: "dataset \<Rightarrow> error + store_eff_row list" where
  "bottom_stores data =
     (if data = [] then Inl TypeError
      else Inr (nsmallest 5 profit_margin (store_efficiency data)))"

section \<open>statistical_insights\<close>










text \<open>
  The test of lines 232 to 238. \<^verbatim>\<open>scipy.stats.ttest_ind\<close> is library code: given an
  empty sample of a numeric column it returns NaN for the statistic and for the p-value
  and does not raise; what it computes from two samples that are not empty (Student's
  statistic and the two-sided p-value) is the parameter \<open>student\<close>. The method has no
  \<^verbatim>\<open>raise\<close> and no check of the two samples. On the dataset without rows the column
  \<^verbatim>\<open>sales_amount\<close> has the dtype \<^verbatim>\<open>object\<close>, and the call of line 235 raises
  \<^verbatim>\<open>AttributeError\<close> inside the library.
\<close>

definition tier_sales :: "string \<Rightarrow> dataset \<Rightarrow> real list" where
  "tier_sales t data = map sales_amount (filter (\<lambda>r. tier r = Some t) data)"

definition ttest_ind ::
  "(real list \<Rightarrow> real list \<Rightarrow> fnum \<times> fnum) \<Rightarrow> real list \<Rightarrow> real list \<Rightarrow> fnum \<times> fnum" where
  "ttest_ind student a b = (if a = [] \<or> b = [] then (NaN, NaN) else student a b)"

record test_report =
  t_stat :: fnum
  p_value :: fnum
  verdict :: string

definition tier_test ::
  "(real list \<Rightarrow> real list \<Rightarrow> fnum \<times> fnum) \<Rightarrow> dataset \<Rightarrow> error + test_report" where
  "tier_test student data =
     (let metro_sales = tier_sales ''Metro'' data;
          tier1_sales = tier_sales ''Tier_1'' data
      in if data = [] then Inl AttributeError
         else (let (t, p) = ttest_ind student metro_sales tier1_sales
               in Inr \<lparr>t_stat = t, p_value = p,
                       verdict = (if flt p (Finite (5 / 100)) then ''Significant''
                                  else ''Not Significant'')\<rparr>))"

section \<open>Example data\<close>

definition base_row :: row where
  "base_row =
     \<lparr>store_id = Some ''S1'', chain_name = Some ''A'', category = Some ''Grocery'',
      region = Some ''North'', tier = Some ''Metro'', year = 2023, month = 1,
      sales_amount = 0, net_profit = 0, gross_margin_pct = 0, net_margin_pct = 0,
      customer_count = 0, avg_basket_value = 0, inventory_turnover_ratio = 0,
      customer_satisfaction_score = 0, total_items_sold = 0\<rparr>"

text \<open>The scenario of the specification: three rows of chain A.\<close>

definition chain_A_rows :: dataset where
  "chain_A_rows =
     [base_row\<lparr>month := 1, sales_amount := 100, net_profit := 10, net_margin_pct := 10\<rparr>,
      base_row\<lparr>month := 2, sales_amount := 200, net_profit := 10, net_margin_pct := 5\<rparr>,
      base_row\<lparr>month := 3, sales_amount := 300, net_profit := 15, net_margin_pct := 5\<rparr>]"

text \<open>A store with costs and no sales, three stores of one region, two rows of one chain.\<close>

definition loss_rows :: dataset where
  "loss_rows = [base_row\<lparr>net_profit := - 5\<rparr>]"

definition three_store_rows :: dataset where
  "three_store_rows =
     [base_row\<lparr>store_id := Some ''S1'', sales_amount := 50\<rparr>,
      base_row\<lparr>store_id := Some ''S2'', sales_amount := 30\<rparr>,
      base_row\<lparr>store_id := Some ''S3'', sales_amount := 20\<rparr>]"

definition two_chain_rows :: dataset where
  "two_chain_rows =
     [base_row\<lparr>store_id := Some ''S1'', chain_name := Some ''A'', sales_amount := 25000000,
        net_margin_pct := 8, customer_count := 40000\<rparr>,
      base_row\<lparr>store_id := Some ''S2'', chain_name := Some ''A'', sales_amount := 12400000,
        net_margin_pct := 5, customer_count := 20000\<rparr>]"

text \<open>
  A dataset without a Metro row and without a Tier_1 row, and one value for the
  parameter of the test, which an empty sample never reaches.
\<close>

definition tier2_rows :: dataset where
  "tier2_rows = [base_row\<lparr>tier := Some ''Tier_2'', sales_amount := 100\<rparr>]"

definition any_student :: "real list \<Rightarrow> real list \<Rightarrow> fnum \<times> fnum" where
  "any_student a b = (Finite 0, Finite 1)"

text \<open>
  Rows of two years: months 1 and 2 tie for the highest mean (200), months 3 and 4 for
  the lowest (50).
\<close>

definition season_rows :: dataset where
  "season_rows =
     [base_row\<lparr>year := 2023, month := 4, sales_amount := 50\<rparr>,
      base_row\<lparr>year := 2023, month := 2, sales_amount := 200\<rparr>,
      base_row\<lparr>year := 2022, month := 1, sales_amount := 100\<rparr>,
      base_row\<lparr>year := 2023, month := 3, sales_amount := 50\<rparr>,
      base_row\<lparr>year := 2023, month := 1, sales_amount := 300\<rparr>]"

text \<open>
  The specification's measure of a calendar month: the mean of \<^verbatim>\<open>sales_amount\<close> over
  the rows of that month, whatever their year.
\<close>

definition spec_month_mean :: "dataset \<Rightarrow> int \<Rightarrow> real" where
  "spec_month_mean data m =
     sum_list (map sales_amount (filter (\<lambda>r. month r = m) data))
       / real (length (filter (\<lambda>r. month r = m) data))"

text \<open>Three categories with the same sales, and a dataset without any sales.\<close>

definition equal_category_rows :: dataset where
  "equal_category_rows =
     [base_row\<lparr>category := Some ''Apparel'', sales_amount := 1\<rparr>,
      base_row\<lparr>category := Some ''Electronics'', sales_amount := 1\<rparr>,
      base_row\<lparr>category := Some ''Grocery'', sales_amount := 1\<rparr>]"

text \<open>
  Eleven stores with the same margin, and twelve stores with ten different margins, two
  of which occur twice.
\<close>

definition tied_store_rows :: dataset where
  "tied_store_rows =
     map (\<lambda>s. base_row\<lparr>store_id := Some s, sales_amount := 100, net_profit := 10\<rparr>)
       [''S01'', ''S02'', ''S03'', ''S04'', ''S05'', ''S06'', ''S07'', ''S08'', ''S09'',
        ''S10'', ''S11'']"

definition ranked_store_rows :: dataset where
  "ranked_store_rows =
     map (\<lambda>(s, p). base_row\<lparr>store_id := Some s, sales_amount := 100, net_profit := p\<rparr>)
       [(''S01'', 7), (''S02'', 3), (''S03'', 9), (''S04'', 1), (''S05'', 10), (''S06'', 2),
        (''S07'', 8), (''S08'', 4), (''S09'', 6), (''S10'', 5), (''S11'', 6), (''S12'', 5)]"


text \<open>A region whose only row has no store identifier.\<close>

definition unnamed_store_rows :: dataset where
  "unnamed_store_rows = [base_row\<lparr>store_id := None, sales_amount := 100\<rparr>]"

text \<open>Two rows with sales 1, the second without a category.\<close>

definition uncategorised_rows :: dataset where
  "uncategorised_rows =
     [base_row\<lparr>sales_amount := 1\<rparr>, base_row\<lparr>category := None, sales_amount := 1\<rparr>]"

section \<open>Groups and rounding\<close>

lemma present_set: "set (present xs) = {x. Some x \<in> set xs}"
  by (induction xs rule: present.induct) auto

lemma present_map:
  assumes "\<And>r. key (g r) = key r"
  shows "present (map key (map g data)) = present (map key data)"
  using assms by (simp add: comp_def)

lemma group_keys_map:
  assumes "\<And>r. key (g r) = key r"
  shows "group_keys key (map g data) = group_keys key data"
  using assms by (simp add: group_keys_def comp_def)

lemma group_rows_map:
  assumes "\<And>r. key (g r) = key r"
  shows "group_rows key (map g data) k = map g (group_rows key data k)"
  using assms by (simp add: group_rows_def filter_map comp_def)

lemma groupby_map:
  assumes "\<And>r. key (g r) = key r"
  shows "groupby key (map g data) = map (\<lambda>(k, rows). (k, map g rows)) (groupby key data)"
  using assms by (simp add: groupby_def group_keys_map group_rows_map)

lemma group_keys_set: "set (group_keys key data) = {k. Some k \<in> key ` set data}"
  by (simp add: group_keys_def present_set)

lemma group_keys_sorted: "sorted (group_keys key data)"
  by (simp add: group_keys_def)

lemma group_keys_distinct: "distinct (group_keys key data)"
  by (simp add: group_keys_def)

lemma group_rows_nonempty:
  assumes "Some k \<in> key ` set data"
  shows "group_rows key data k \<noteq> []"
  using assms by (auto simp: group_rows_def filter_empty_conv)

lemma groupby_nonempty:
  assumes "(k, rows) \<in> set (groupby key data)"
  shows "rows \<noteq> []"
proof -
  from assms have "Some k \<in> key ` set data" and "rows = group_rows key data k"
    by (auto simp: groupby_def group_keys_set)
  then show ?thesis by (simp add: group_rows_nonempty)
qed

lemma groupby_rows:
  assumes "(k, rows) \<in> set (groupby key data)"
  shows "rows = filter (\<lambda>r. key r = Some k) data"
  using assms by (auto simp: groupby_def group_rows_def)

lemma nunique_card: "nunique xs = card {x. Some x \<in> set xs}"
  by (simp add: nunique_def length_remdups_card_conv present_set)

lemma nunique_pos: "1 \<le> nunique xs \<longleftrightarrow> (\<exists>x. Some x \<in> set xs)"
proof -
  have "finite {x. Some x \<in> set xs}"
    by (simp flip: present_set)
  then have "0 < card {x. Some x \<in> set xs} \<longleftrightarrow> {x. Some x \<in> set xs} \<noteq> {}"
    by (simp add: card_gt_0_iff)
  then show ?thesis by (auto simp add: nunique_card Suc_le_eq)
qed

lemma rint_of_int [simp]: "rint (of_int n) = n"
  by (simp add: rint_def Let_def)

lemma rint_0 [simp]: "rint 0 = 0"
  using rint_of_int [of 0] by simp

lemma round_dec_0 [simp]: "round_dec d 0 = 0"
  by (simp add: round_dec_def)

section \<open>Growth from one period to the next\<close>

lemma binade_numeral:
  "binade (numeral k) x =
     (if x \<ge> 2 then binade (pred_numeral k) (x / 2) + 1
      else if x < 1 then binade (pred_numeral k) (x * 2) - 1
      else 0)"
  by (simp add: numeral_eq_Suc)

lemma shift1_length: "length (shift1 xs) = length xs"
  by (cases xs) (simp_all add: shift1_def)

lemma shift1_nth:
  assumes "1 \<le> i" "i < length xs"
  shows "shift1 xs ! i = xs ! (i - 1)"
proof -
  from assms obtain j where j: "i = Suc j" by (cases i) auto
  with assms have "xs \<noteq> []" and "j < length xs - 1" by auto
  then show ?thesis by (simp add: shift1_def j nth_butlast)
qed

lemma pct_change_length: "length (pct_change rnd xs) = length xs"
  by (simp add: pct_change_def shift1_length)

lemma growth_pct_length: "length (growth_pct rnd vals) = length vals"
  by (simp add: growth_pct_def pct_change_length)

lemma growth_pct_first:
  assumes "vals \<noteq> []"
  shows "growth_pct rnd vals ! 0 = NaN"
proof -
  from assms obtain v vs where "vals = v # vs" by (cases vals) auto
  then show ?thesis by (simp add: growth_pct_def pct_change_def shift1_def)
qed

lemma growth_pct_nth:
  assumes "1 \<le> i" "i < length vals"
  shows "growth_pct rnd vals ! i =
    frnd rnd (fmul (frnd rnd (fsub (frnd rnd (fdiv (Finite (vals ! i)) (Finite (vals ! (i - 1)))))
      (Finite 1))) (Finite 100))"
proof -
  have l: "i < length (map Finite vals)" "i - 1 < length vals"
    using assms by simp_all
  have "shift1 (map Finite vals) ! i = Finite (vals ! (i - 1))"
    using shift1_nth [of i "map Finite vals"] assms l by simp
  then show ?thesis
    using assms by (simp add: growth_pct_def pct_change_def shift1_length)
qed

lemma frnd_exact [simp]: "frnd (\<lambda>x. x) v = v"
  by (cases v) simp_all

lemma exact_growth:
  "fmul (fsub (fdiv (Finite a) (Finite b)) (Finite 1)) (Finite 100)
   = fmul (fdiv (Finite (a - b)) (Finite b)) (Finite 100)"
  by (simp add: field_simps)

lemma monthly_sales_growth:
  "map sales_growth (monthly_trends rnd data) = growth_pct rnd (map m_sales (monthly_agg data))"
proof -
  define tab where "tab = monthly_agg data"
  define sg where "sg = growth_pct rnd (map m_sales tab)"
  define cg where "cg = growth_pct rnd (map (\<lambda>r. of_int (m_customers r)) tab)"
  have l: "length sg = length tab" "length cg = length tab"
    by (simp_all add: sg_def cg_def growth_pct_length)
  have "map sales_growth (monthly_trends rnd data)
      = map (\<lambda>(r, s, c). s) (zip tab (zip sg cg))"
    by (simp add: monthly_trends_def Let_def tab_def sg_def cg_def
        month_row.extend_def case_prod_unfold)
  also have "\<dots> = map fst (map snd (zip tab (zip sg cg)))"
    by (simp add: case_prod_unfold)
  also have "\<dots> = sg"
    using l by simp
  finally show ?thesis by (simp add: sg_def tab_def)
qed

text \<open>
  Claim C4, as stated, fails in its last part: two consecutive periods with the values
  100 and 120 do not yield exactly 20.0. The growth is \<^verbatim>\<open>(120 / 100 - 1) * 100\<close> in
  binary64: the quotient is rounded to the double next to 1.2, which lies below 1.2, and
  the result is 5629499534213119 / 2^48 (printed 19.999999999999996), one unit in the
  last place below 20.
\<close>

theorem growth_100_120_counterexample:
  "growth_pct b64 [100, 120] = [NaN, Finite (5629499534213119 / 2 ^ 48)]
   \<and> growth_pct b64 [100, 120] ! 1 \<noteq> Finite 20"
  by (simp add: growth_pct_def pct_change_def shift1_def b64_def binade_numeral pow2_def
      rint_def Let_def)

text \<open>
  Claim C4, amended. The growth column of the monthly table is the growth of the
  chronologically ordered monthly sums. For every sequence of values and every
  \<open>i \<ge> 1\<close>, \<open>growth[i]\<close> is \<open>(value[i] / value[i-1] - 1) * 100\<close> with each of the three
  operations rounded; in exact arithmetic that is
  \<open>(value[i] - value[i-1]) / value[i-1] * 100\<close>, also when \<open>value[i-1]\<close> is zero (then
  it is an infinity or NaN). \<open>growth[0]\<close> is NaN, not zero. The values 100 and 120 yield
  20 in exact arithmetic and 5629499534213119 / 2^48 (19.999999999999996) in binary64.
\<close>

theorem growth_formula:
  "map sales_growth (monthly_trends rnd data) = growth_pct rnd (map m_sales (monthly_agg data))
   \<and> length (growth_pct rnd vals) = length vals
   \<and> (vals \<noteq> [] \<longrightarrow> growth_pct rnd vals ! 0 = NaN)
   \<and> (1 \<le> i \<and> i < length vals \<longrightarrow>
        growth_pct rnd vals ! i =
          frnd rnd (fmul (frnd rnd (fsub (frnd rnd
            (fdiv (Finite (vals ! i)) (Finite (vals ! (i - 1))))) (Finite 1))) (Finite 100))
        \<and> growth_pct (\<lambda>x. x) vals ! i =
          fmul (fdiv (Finite (vals ! i - vals ! (i - 1))) (Finite (vals ! (i - 1)))) (Finite 100))
   \<and> growth_pct (\<lambda>x. x) [100, 120] = [NaN, Finite 20]
   \<and> growth_pct b64 [100, 120] = [NaN, Finite (5629499534213119 / 2 ^ 48)]"
proof -
  have a: "1 \<le> i \<and> i < length vals \<longrightarrow>
        growth_pct (\<lambda>x. x) vals ! i =
          fmul (fdiv (Finite (vals ! i - vals ! (i - 1))) (Finite (vals ! (i - 1)))) (Finite 100)"
  proof
    assume i: "1 \<le> i \<and> i < length vals"
    then have "growth_pct (\<lambda>x. x) vals ! i =
        fmul (fsub (fdiv (Finite (vals ! i)) (Finite (vals ! (i - 1)))) (Finite 1)) (Finite 100)"
      using growth_pct_nth [of i vals "\<lambda>x. x"] by (simp only: frnd_exact)
    then show "growth_pct (\<lambda>x. x) vals ! i =
          fmul (fdiv (Finite (vals ! i - vals ! (i - 1))) (Finite (vals ! (i - 1)))) (Finite 100)"
      by (simp only: exact_growth)
  qed
  have b: "growth_pct (\<lambda>x. x) [100, 120] = [NaN, Finite 20]"
    by (simp add: growth_pct_def pct_change_def shift1_def)
  have c: "growth_pct b64 [100, 120] = [NaN, Finite (5629499534213119 / 2 ^ 48)]"
    by (simp add: growth_pct_def pct_change_def shift1_def b64_def binade_numeral pow2_def
        rint_def Let_def)
  show ?thesis
    using a b c monthly_sales_growth growth_pct_length growth_pct_first growth_pct_nth
    by blast
qed

theorem growth_formula_witness:
  "growth_pct (\<lambda>x. x) [100, 150, 0, 30] = [NaN, Finite 50, Finite (- 100), PosInf]
   \<and> growth_pct b64 [100, 150] ! 0 = NaN
   \<and> growth_pct b64 [100, 150] ! 1 = Finite 50"
proof -
  have e: "growth_pct (\<lambda>x. x) [100, 150, 0, 30] = [NaN, Finite 50, Finite (- 100), PosInf]"
    by (simp add: growth_pct_def pct_change_def shift1_def)
  have v: "frnd b64 (fmul (frnd b64 (fsub (frnd b64
            (fdiv (Finite ([100, 150] ! 1)) (Finite ([100, 150] ! (1 - 1))))) (Finite 1))) (Finite 100))
      = Finite 50"
    by (simp add: b64_def binade_numeral pow2_def rint_def Let_def)
  show ?thesis
    using growth_formula [of b64 "[]" "[100, 150]" 1] e v by simp
qed

section \<open>The correlation matrix\<close>


























section \<open>Peak and low season\<close>

lemma first_best_max:
  assumes "sorted (map fst ((bk, b) # rest))"
  shows "\<exists>v. (first_best fgt (bk, Finite b) (map (\<lambda>(k, x). (k, Finite x)) rest), v)
            \<in> set ((bk, b) # rest)
          \<and> (\<forall>(m, x) \<in> set ((bk, b) # rest).
               x \<le> v \<and> (x = v \<longrightarrow>
                 first_best fgt (bk, Finite b) (map (\<lambda>(k, x). (k, Finite x)) rest) \<le> m))"
  using assms
proof (induction rest arbitrary: bk b)
  case Nil
  then show ?case by simp
next
  case (Cons kx rest)
  obtain k x where kx: "kx = (k, x)" by (cases kx)
  show ?case
  proof (cases "x > b")
    case True
    from Cons.prems have "sorted (map fst ((k, x) # rest))" by (simp add: kx)
    from Cons.IH [OF this] obtain v where
      v: "(first_best fgt (k, Finite x) (map (\<lambda>(k, x). (k, Finite x)) rest), v)
            \<in> set ((k, x) # rest)"
      and a: "\<forall>(m, y) \<in> set ((k, x) # rest).
               y \<le> v \<and> (y = v \<longrightarrow>
                 first_best fgt (k, Finite x) (map (\<lambda>(k, x). (k, Finite x)) rest) \<le> m)"
      by blast
    from a have "x \<le> v" by auto
    with True have "b < v" by simp
    with v a True show ?thesis
      by (intro exI [of _ v]) (auto simp: kx)
  next
    case False
    from Cons.prems have s: "sorted (map fst ((bk, b) # rest))" and le: "bk \<le> k"
      by (simp_all add: kx)
    from Cons.IH [OF s] obtain v where
      v: "(first_best fgt (bk, Finite b) (map (\<lambda>(k, x). (k, Finite x)) rest), v)
            \<in> set ((bk, b) # rest)"
      and a: "\<forall>(m, y) \<in> set ((bk, b) # rest).
               y \<le> v \<and> (y = v \<longrightarrow>
                 first_best fgt (bk, Finite b) (map (\<lambda>(k, x). (k, Finite x)) rest) \<le> m)"
      by blast
    from a have bv: "b \<le> v"
      and bb: "b = v \<longrightarrow> first_best fgt (bk, Finite b) (map (\<lambda>(k, x). (k, Finite x)) rest) \<le> bk"
      by auto
    from False bv have xv: "x \<le> v" by simp
    have "x = v \<longrightarrow> first_best fgt (bk, Finite b) (map (\<lambda>(k, x). (k, Finite x)) rest) \<le> k"
      using False bv bb le by auto
    with v a False xv show ?thesis
      by (intro exI [of _ v]) (auto simp: kx)
  qed
qed

lemma flt_Finite: "flt (Finite a) (Finite b) = (a < b)"
  by (simp add: flt_def)

lemma first_best_min:
  assumes "sorted (map fst ((bk, b) # rest))"
  shows "\<exists>v. (first_best flt (bk, Finite b) (map (\<lambda>(k, x). (k, Finite x)) rest), v)
            \<in> set ((bk, b) # rest)
          \<and> (\<forall>(m, x) \<in> set ((bk, b) # rest).
               v \<le> x \<and> (x = v \<longrightarrow>
                 first_best flt (bk, Finite b) (map (\<lambda>(k, x). (k, Finite x)) rest) \<le> m))"
  using assms
proof (induction rest arbitrary: bk b)
  case Nil
  then show ?case by simp
next
  case (Cons kx rest)
  obtain k x where kx: "kx = (k, x)" by (cases kx)
  show ?case
  proof (cases "x < b")
    case True
    from Cons.prems have "sorted (map fst ((k, x) # rest))" by (simp add: kx)
    from Cons.IH [OF this] obtain v where
      v: "(first_best flt (k, Finite x) (map (\<lambda>(k, x). (k, Finite x)) rest), v)
            \<in> set ((k, x) # rest)"
      and a: "\<forall>(m, y) \<in> set ((k, x) # rest).
               v \<le> y \<and> (y = v \<longrightarrow>
                 first_best flt (k, Finite x) (map (\<lambda>(k, x). (k, Finite x)) rest) \<le> m)"
      by blast
    from a have "v \<le> x" by auto
    with True have "v < b" by simp
    with v a True show ?thesis
      by (intro exI [of _ v]) (auto simp: kx flt_Finite)
  next
    case False
    from Cons.prems have s: "sorted (map fst ((bk, b) # rest))" and le: "bk \<le> k"
      by (simp_all add: kx)
    from Cons.IH [OF s] obtain v where
      v: "(first_best flt (bk, Finite b) (map (\<lambda>(k, x). (k, Finite x)) rest), v)
            \<in> set ((bk, b) # rest)"
      and a: "\<forall>(m, y) \<in> set ((bk, b) # rest).
               v \<le> y \<and> (y = v \<longrightarrow>
                 first_best flt (bk, Finite b) (map (\<lambda>(k, x). (k, Finite x)) rest) \<le> m)"
      by blast
    from a have bv: "v \<le> b"
      and bb: "b = v \<longrightarrow> first_best flt (bk, Finite b) (map (\<lambda>(k, x). (k, Finite x)) rest) \<le> bk"
      by auto
    from False bv have xv: "v \<le> x" by simp
    have "x = v \<longrightarrow> first_best flt (bk, Finite b) (map (\<lambda>(k, x). (k, Finite x)) rest) \<le> k"
      using False bv bb le by auto
    with v a False xv show ?thesis
      by (intro exI [of _ v]) (auto simp: kx flt_Finite)
  qed
qed

lemma present_Some: "present (map (\<lambda>r. Some (f r)) xs) = map f xs"
  by (induction xs) simp_all

lemma month_keys: "group_keys month_key data = sort (remdups (map month data))"
  by (simp add: group_keys_def month_key_def [abs_def] present_Some)

lemma seasonal_performance_means:
  "seasonal_performance data =
     map (\<lambda>m. (m, Finite (spec_month_mean data m))) (group_keys month_key data)"
proof -
  have "\<And>m. m \<in> set (group_keys month_key data) \<Longrightarrow>
      col_mean sales_amount (group_rows month_key data m) = Finite (spec_month_mean data m)"
  proof -
    fix m assume "m \<in> set (group_keys month_key data)"
    then have "group_rows month_key data m \<noteq> []"
      by (simp add: group_keys_set group_rows_nonempty)
    then show "col_mean sales_amount (group_rows month_key data m)
        = Finite (spec_month_mean data m)"
      by (simp add: col_mean_def mean_def spec_month_mean_def group_rows_def month_key_def)
  qed
  then show ?thesis
    by (simp add: seasonal_performance_def groupby_def)
qed

lemma idx_extreme_finite:
  "idx_extreme better (map (\<lambda>m. (m, Finite (f m))) (k # ks))
     = Inr (first_best better (k, Finite (f k))
         (map (\<lambda>(m, x). (m, Finite x)) (map (\<lambda>m. (m, f m)) ks)))"
proof -
  have "filter (\<lambda>(m, v). v \<noteq> NaN) (map (\<lambda>m. (m, Finite (f m))) (k # ks))
      = map (\<lambda>m. (m, Finite (f m))) (k # ks)"
    by (induction ks) auto
  then show ?thesis
    by (simp add: idx_extreme_def comp_def)
qed

text \<open>
  Claim C9. The seasonal table holds, for every calendar month that occurs, the mean of
  \<^verbatim>\<open>sales_amount\<close> over the rows of that month in all years, in month-number order. On a
  dataset that is not empty, the peak month is a month whose mean is the largest and the
  low month one whose mean is the smallest, and among the months that share the extreme
  mean it is the one with the smallest month number. (On the empty dataset both
  \<^verbatim>\<open>idxmax\<close> and \<^verbatim>\<open>idxmin\<close> raise.)
\<close>

theorem peak_low_season:
  "(data \<noteq> [] \<longrightarrow>
      seasonal_performance data =
        map (\<lambda>m. (m, Finite (spec_month_mean data m))) (sort (remdups (map month data)))
      \<and> (\<exists>p l. peak_month data = Inr p \<and> low_month data = Inr l
            \<and> p \<in> month ` set data \<and> l \<in> month ` set data
            \<and> (\<forall>m \<in> month ` set data.
                  spec_month_mean data m \<le> spec_month_mean data p
                \<and> (spec_month_mean data m = spec_month_mean data p \<longrightarrow> p \<le> m)
                \<and> spec_month_mean data l \<le> spec_month_mean data m
                \<and> (spec_month_mean data m = spec_month_mean data l \<longrightarrow> l \<le> m))))
   \<and> peak_month [] = Inl ValueError \<and> low_month [] = Inl ValueError"
proof -
  have e: "peak_month [] = Inl ValueError \<and> low_month [] = Inl ValueError"
    by (simp add: peak_month_def low_month_def idxmax_def idxmin_def idx_extreme_def
        seasonal_performance_def groupby_def group_keys_def)
  have n: "seasonal_performance data =
        map (\<lambda>m. (m, Finite (spec_month_mean data m))) (sort (remdups (map month data)))
      \<and> (\<exists>p l. peak_month data = Inr p \<and> low_month data = Inr l
            \<and> p \<in> month ` set data \<and> l \<in> month ` set data
            \<and> (\<forall>m \<in> month ` set data.
                  spec_month_mean data m \<le> spec_month_mean data p
                \<and> (spec_month_mean data m = spec_month_mean data p \<longrightarrow> p \<le> m)
                \<and> spec_month_mean data l \<le> spec_month_mean data m
                \<and> (spec_month_mean data m = spec_month_mean data l \<longrightarrow> l \<le> m)))"
    if ne: "data \<noteq> []"
  proof -
    define avg where "avg = spec_month_mean data"
    define keys where "keys = group_keys month_key data"
    have ks: "set keys = month ` set data" "sorted keys"
      by (simp_all add: keys_def month_keys)
    with ne have "keys \<noteq> []" by auto
    then obtain k0 rest where kk: "keys = k0 # rest" by (cases keys) auto
    have s: "seasonal_performance data = map (\<lambda>m. (m, Finite (avg m))) (k0 # rest)"
      by (simp add: seasonal_performance_means avg_def flip: keys_def kk)
    have srt: "sorted (map fst ((k0, avg k0) # map (\<lambda>m. (m, avg m)) rest))"
      using ks(2) by (simp add: kk comp_def)
    have st: "set ((k0, avg k0) # map (\<lambda>m. (m, avg m)) rest) = (\<lambda>m. (m, avg m)) ` set keys"
      by (simp add: kk)
    define p where "p = first_best fgt (k0, Finite (avg k0))
         (map (\<lambda>(m, x). (m, Finite x)) (map (\<lambda>m. (m, avg m)) rest))"
    define l where "l = first_best flt (k0, Finite (avg k0))
         (map (\<lambda>(m, x). (m, Finite x)) (map (\<lambda>m. (m, avg m)) rest))"
    have pk: "peak_month data = Inr p"
      by (simp only: peak_month_def idxmax_def s idx_extreme_finite p_def)
    have lw: "low_month data = Inr l"
      by (simp only: low_month_def idxmin_def s idx_extreme_finite l_def)
    from first_best_max [OF srt] obtain v where
      v: "(p, v) \<in> (\<lambda>m. (m, avg m)) ` set keys"
      and a: "\<forall>(m, x) \<in> (\<lambda>m. (m, avg m)) ` set keys. x \<le> v \<and> (x = v \<longrightarrow> p \<le> m)"
      unfolding st p_def by blast
    from first_best_min [OF srt] obtain w where
      w: "(l, w) \<in> (\<lambda>m. (m, avg m)) ` set keys"
      and b: "\<forall>(m, x) \<in> (\<lambda>m. (m, avg m)) ` set keys. w \<le> x \<and> (x = w \<longrightarrow> l \<le> m)"
      unfolding st l_def by blast
    from v have pv: "p \<in> set keys" "v = avg p" by auto
    from w have lw': "l \<in> set keys" "w = avg l" by auto
    have "\<forall>m \<in> set keys. avg m \<le> avg p \<and> (avg m = avg p \<longrightarrow> p \<le> m)
        \<and> avg l \<le> avg m \<and> (avg m = avg l \<longrightarrow> l \<le> m)"
      using a b pv(2) lw'(2) by auto
    then show ?thesis
      using pk lw pv(1) lw'(1) ks(1)
      by (auto simp add: seasonal_performance_means month_keys avg_def)
  qed
  from e n show ?thesis by blast
qed

theorem peak_low_season_witness:
  "seasonal_performance season_rows
     = [(1, Finite 200), (2, Finite 200), (3, Finite 50), (4, Finite 50)]
   \<and> peak_month season_rows = Inr 1
   \<and> low_month season_rows = Inr 3"
proof -
  have ne: "season_rows \<noteq> []" by (simp add: season_rows_def)
  have m: "spec_month_mean season_rows 1 = 200" "spec_month_mean season_rows 2 = 200"
    "spec_month_mean season_rows 3 = 50" "spec_month_mean season_rows 4 = 50"
    by (simp_all add: spec_month_mean_def season_rows_def base_row_def)
  have k: "sort (remdups (map month season_rows)) = [1, 2, 3, 4]"
    by (simp add: season_rows_def base_row_def)
  have i: "month ` set season_rows = {1, 2, 3, 4}"
    by (auto simp add: season_rows_def base_row_def)
  from peak_low_season [of season_rows] ne obtain p l where
    s: "seasonal_performance season_rows =
        map (\<lambda>m. (m, Finite (spec_month_mean season_rows m))) [1, 2, 3, 4]"
    and pl: "peak_month season_rows = Inr p" "low_month season_rows = Inr l"
      "p \<in> {1, 2, 3, 4}" "l \<in> {1, 2, 3, 4}"
    and a: "\<forall>m \<in> {1, 2, 3, 4}.
                  spec_month_mean season_rows m \<le> spec_month_mean season_rows p
                \<and> (spec_month_mean season_rows m = spec_month_mean season_rows p \<longrightarrow> p \<le> m)
                \<and> spec_month_mean season_rows l \<le> spec_month_mean season_rows m
                \<and> (spec_month_mean season_rows m = spec_month_mean season_rows l \<longrightarrow> l \<le> m)"
    unfolding k i by blast
  from pl(3) a have "p = 1" using m by auto
  moreover from pl(4) a have "l = 3" using m by auto
  ultimately show ?thesis using s pl(1,2) by (simp add: m)
qed

section \<open>Sales per store\<close>

lemma region_group_stores:
  "reg_stores (region_group (k, rows)) = card {s. Some s \<in> store_id ` set rows}"
  by (simp add: nunique_card)

lemma region_group_stores_pos:
  "1 \<le> reg_stores (region_group (k, rows)) \<longleftrightarrow> (\<exists>r \<in> set rows. store_id r \<noteq> None)"
proof -
  have "(\<exists>x. Some x \<in> store_id ` set rows) \<longleftrightarrow> (\<exists>r \<in> set rows. store_id r \<noteq> None)"
  proof
    assume "\<exists>x. Some x \<in> store_id ` set rows"
    then obtain x r where "r \<in> set rows" "Some x = store_id r" by auto
    then show "\<exists>r \<in> set rows. store_id r \<noteq> None" by (metis option.distinct(1))
  next
    assume "\<exists>r \<in> set rows. store_id r \<noteq> None"
    then obtain r x where "r \<in> set rows" "store_id r = Some x" by auto
    then have "Some x \<in> store_id ` set rows" by (metis image_eqI)
    then show "\<exists>x. Some x \<in> store_id ` set rows" ..
  qed
  moreover have "1 \<le> reg_stores (region_group (k, rows))
      \<longleftrightarrow> (\<exists>x. Some x \<in> store_id ` set rows)"
    using nunique_pos [of "map store_id rows"] by simp
  ultimately show ?thesis by (rule trans [rotated])
qed

lemma regional_metrics_rows:
  assumes "r \<in> set (regional_metrics data)"
  obtains k rows where "(k, rows) \<in> set (groupby region data)"
    and "r = region_derive (region_group (k, rows))"
  using assms by (auto simp: regional_metrics_def region_agg_def)

lemma sales_per_store_formula:
  "Sales_Per_Store (region_derive r)
     = fround 0 (fdiv (Finite (reg_sales r)) (Finite (real (reg_stores r))))"
  "reg_sales (region_derive r) = reg_sales r"
  "reg_stores (region_derive r) = reg_stores r"
  by (simp_all add: region_derive_def region_row.extend_def)

text \<open>
  Claim C10, as stated, fails. \<^verbatim>\<open>nunique\<close> skips missing cells, so a group can have rows
  and still count no store: for a region whose only row has an empty \<^verbatim>\<open>store_id\<close> cell
  and sales of 100 the store count is 0, and \<^verbatim>\<open>Sales_Per_Store\<close> is 100/0, plus infinity.
\<close>

theorem region_store_count_counterexample:
  "groupby region unnamed_store_rows = [(''North'', unnamed_store_rows)]
   \<and> map (\<lambda>r. (reg_sales r, reg_stores r, Sales_Per_Store r))
        (regional_metrics unnamed_store_rows) = [(100, 0, PosInf)]"
  by (simp add: regional_metrics_def region_agg_def region_derive_def
      region_row.extend_def groupby_def group_keys_def group_rows_def col_sum_def
      col_sum_int_def nunique_def unnamed_store_rows_def base_row_def round_dec_def
      rint_def Let_def)

text \<open>
  Claim C10, amended. In the per-region aggregate every group contains at least one
  row. Its distinct-store count is at least 1 exactly when some row of the group has a
  \<^verbatim>\<open>store_id\<close>, and then \<^verbatim>\<open>Sales_Per_Store\<close> is a finite number; so when no \<^verbatim>\<open>store_id\<close>
  cell of the dataset is missing the division by the store count never meets a zero.
  A group all of whose \<^verbatim>\<open>store_id\<close> cells are missing has the count 0, and its
  \<^verbatim>\<open>Sales_Per_Store\<close> is an infinity or NaN. The profit margin of the same table can be
  undefined in any case: for one row without sales and without profit it is NaN, next
  to a store count of 1 and sales per store of 0.
\<close>

theorem region_store_count:
  "(\<forall>(k, rows) \<in> set (groupby region data).
      rows \<noteq> []
      \<and> reg_stores (region_group (k, rows)) = card {s. Some s \<in> store_id ` set rows}
      \<and> (1 \<le> reg_stores (region_group (k, rows)) \<longleftrightarrow> (\<exists>r \<in> set rows. store_id r \<noteq> None)))
   \<and> (\<forall>r \<in> set (regional_metrics data).
      (1 \<le> reg_stores r \<longrightarrow>
         Sales_Per_Store r = Finite (round_dec 0 (reg_sales r / real (reg_stores r))))
      \<and> (reg_stores r = 0 \<longrightarrow>
         Sales_Per_Store r =
           (if 0 < reg_sales r then PosInf else if reg_sales r < 0 then NegInf else NaN)))
   \<and> ((\<forall>r \<in> set data. store_id r \<noteq> None) \<longrightarrow>
        (\<forall>r \<in> set (regional_metrics data).
           1 \<le> reg_stores r
           \<and> Sales_Per_Store r = Finite (round_dec 0 (reg_sales r / real (reg_stores r)))))
   \<and> map (\<lambda>r. (reg_sales r, reg_stores r, Sales_Per_Store r, Profit_Margin r))
        (regional_metrics [base_row]) = [(0, 1, Finite 0, NaN)]"
proof -
  have a: "\<forall>(k, rows) \<in> set (groupby region data).
      rows \<noteq> []
      \<and> reg_stores (region_group (k, rows)) = card {s. Some s \<in> store_id ` set rows}
      \<and> (1 \<le> reg_stores (region_group (k, rows)) \<longleftrightarrow> (\<exists>r \<in> set rows. store_id r \<noteq> None))"
  proof (intro ballI, clarify)
    fix k rows assume g: "(k, rows) \<in> set (groupby region data)"
    show "rows \<noteq> []
      \<and> reg_stores (region_group (k, rows)) = card {s. Some s \<in> store_id ` set rows}
      \<and> (1 \<le> reg_stores (region_group (k, rows)) \<longleftrightarrow> (\<exists>r \<in> set rows. store_id r \<noteq> None))"
      using groupby_nonempty [OF g] region_group_stores [of k rows]
        region_group_stores_pos [of k rows] by blast
  qed
  have b: "(1 \<le> reg_stores r \<longrightarrow>
         Sales_Per_Store r = Finite (round_dec 0 (reg_sales r / real (reg_stores r))))
      \<and> (reg_stores r = 0 \<longrightarrow>
         Sales_Per_Store r =
           (if 0 < reg_sales r then PosInf else if reg_sales r < 0 then NegInf else NaN))"
    if "r \<in> set (regional_metrics data)" for r
  proof -
    from that obtain k rows where "r = region_derive (region_group (k, rows))"
      by (rule regional_metrics_rows)
    then have f: "Sales_Per_Store r
        = fround 0 (fdiv (Finite (reg_sales r)) (Finite (real (reg_stores r))))"
      by (simp only: sales_per_store_formula)
    have "Sales_Per_Store r = Finite (round_dec 0 (reg_sales r / real (reg_stores r)))"
      if "1 \<le> reg_stores r"
      using that by (simp add: f)
    moreover have "Sales_Per_Store r =
           (if 0 < reg_sales r then PosInf else if reg_sales r < 0 then NegInf else NaN)"
      if "reg_stores r = 0"
      using that by (simp add: f)
    ultimately show ?thesis by blast
  qed
  have c: "1 \<le> reg_stores r
           \<and> Sales_Per_Store r = Finite (round_dec 0 (reg_sales r / real (reg_stores r)))"
    if all: "\<forall>r \<in> set data. store_id r \<noteq> None" and r: "r \<in> set (regional_metrics data)" for r
  proof -
    from r obtain k rows where g: "(k, rows) \<in> set (groupby region data)"
      and e: "r = region_derive (region_group (k, rows))"
      by (rule regional_metrics_rows)
    from g have ne: "rows \<noteq> []" by (rule groupby_nonempty)
    have "rows = filter (\<lambda>r. region r = Some k) data" by (rule groupby_rows [OF g])
    then have "set rows \<subseteq> set data" by auto
    with all ne have "\<exists>r \<in> set rows. store_id r \<noteq> None"
      by (cases rows) auto
    then have "1 \<le> reg_stores (region_group (k, rows))"
      by (simp only: region_group_stores_pos)
    then have "1 \<le> reg_stores r" by (simp only: e sales_per_store_formula)
    with b [OF r] show ?thesis by blast
  qed
  have d: "map (\<lambda>r. (reg_sales r, reg_stores r, Sales_Per_Store r, Profit_Margin r))
        (regional_metrics [base_row]) = [(0, 1, Finite 0, NaN)]"
    by (simp add: regional_metrics_def region_agg_def region_derive_def
        region_row.extend_def groupby_def group_keys_def group_rows_def col_sum_def
        col_sum_int_def nunique_def base_row_def)
  from a b c d show ?thesis by blast
qed

theorem region_store_count_witness:
  "map reg_stores (regional_metrics three_store_rows) = [3]
   \<and> map Sales_Per_Store (regional_metrics three_store_rows) = [Finite 33]
   \<and> map reg_stores (regional_metrics unnamed_store_rows) = [0]
   \<and> map Sales_Per_Store (regional_metrics unnamed_store_rows) = [PosInf]"
proof -
  have t: "map (\<lambda>r. (reg_sales r, reg_stores r)) (regional_metrics three_store_rows)
      = [(100, 3)]"
    by (simp add: regional_metrics_def region_agg_def region_derive_def
        region_row.extend_def groupby_def group_keys_def group_rows_def col_sum_def
        col_sum_int_def nunique_def three_store_rows_def base_row_def round_dec_def
        rint_def Let_def)
  have u: "map (\<lambda>r. (reg_sales r, reg_stores r)) (regional_metrics unnamed_store_rows)
      = [(100, 0)]"
    by (simp add: regional_metrics_def region_agg_def region_derive_def
        region_row.extend_def groupby_def group_keys_def group_rows_def col_sum_def
        col_sum_int_def nunique_def unnamed_store_rows_def base_row_def round_dec_def
        rint_def Let_def)
  from t obtain r where r: "regional_metrics three_store_rows = [r]"
    "reg_sales r = 100" "reg_stores r = 3" by auto
  from u obtain q where q: "regional_metrics unnamed_store_rows = [q]"
    "reg_sales q = 100" "reg_stores q = 0" by auto
  have all: "\<forall>r \<in> set three_store_rows. store_id r \<noteq> None"
    by (simp add: three_store_rows_def base_row_def)
  have rd: "round_dec 0 (100 / 3) = 33"
    by (simp add: round_dec_def rint_def Let_def)
  have "r \<in> set (regional_metrics three_store_rows)" by (simp add: r(1))
  with region_store_count [of three_store_rows] all
  have "Sales_Per_Store r = Finite (round_dec 0 (reg_sales r / real (reg_stores r)))"
    by blast
  then have sr: "Sales_Per_Store r = Finite 33" by (simp add: r rd)
  have "q \<in> set (regional_metrics unnamed_store_rows)" by (simp add: q(1))
  with region_store_count [of unnamed_store_rows] q(3)
  have "Sales_Per_Store q =
      (if 0 < reg_sales q then PosInf else if reg_sales q < 0 then NegInf else NaN)"
    by blast
  then have sq: "Sales_Per_Store q = PosInf" by (simp add: q)
  from sr sq show ?thesis by (simp add: r q)
qed

section \<open>Formulas of the derived columns\<close>

text \<open>
  Claim C8, as stated, fails: it has the derived column equal to the formula exactly.
  For a region with three stores and sales of 100, \<^verbatim>\<open>Sales_Per_Store\<close> is 33, not 100/3.
\<close>

theorem derived_metrics_counterexample:
  "map (\<lambda>r. (reg_sales r, reg_stores r, Sales_Per_Store r)) (regional_metrics three_store_rows)
     = [(100, 3, Finite 33)]
   \<and> map Sales_Per_Store (regional_metrics three_store_rows) \<noteq> [Finite (100 / 3)]"
  by (simp add: regional_metrics_def region_agg_def region_derive_def
        region_row.extend_def groupby_def group_keys_def group_rows_def col_sum_def
        col_sum_int_def nunique_def three_store_rows_def base_row_def round_dec_def
        rint_def Let_def)

text \<open>
  Claim C8, amended. Each derived column is the stated formula applied to the reduced
  (and already rounded) columns of its own row, and then rounded: \<^verbatim>\<open>Sales_Per_Store\<close> is
  the sales over the store count, rounded to a whole number, where the store count is
  the number of distinct \<^verbatim>\<open>store_id\<close> values of the group (a missing cell is not a
  value; with a count of 0 the quotient is an infinity or NaN, which the rounding leaves
  as it is); \<^verbatim>\<open>ROI_Score\<close> is the average
  margin times the total customers over 100000, rounded to two decimals;
  \<^verbatim>\<open>Sales_Crores\<close> is the total sales over 10,000,000, rounded to one decimal. The
  report lines divide by exactly 10,000,000 for crores and by exactly 1,000,000 for
  millions.
\<close>

theorem derived_metrics_rounded_formulas:
  "(\<forall>(k, rows) \<in> set (groupby region data).
      reg_stores (region_group (k, rows)) = card {s. Some s \<in> store_id ` set rows})
   \<and> (\<forall>r \<in> set (regional_metrics data).
      Sales_Per_Store r = fround 0 (fdiv (Finite (reg_sales r)) (Finite (real (reg_stores r))))
      \<and> (1 \<le> reg_stores r \<longrightarrow>
           Sales_Per_Store r = Finite (round_dec 0 (reg_sales r / real (reg_stores r)))))
   \<and> (\<forall>r \<in> set (chain_performance data).
      (\<exists>m. Avg_Margin r = Finite m
        \<and> ROI_Score r = Finite (round_dec 2 (m * of_int (Total_Customers r) / 100000)))
      \<and> Sales_Crores r = round_dec 1 (Total_Sales r / 10000000))
   \<and> crores x = x / 10000000
   \<and> millions x = x / 1000000"
proof -
  have a: "\<forall>(k, rows) \<in> set (groupby region data).
      reg_stores (region_group (k, rows)) = card {s. Some s \<in> store_id ` set rows}"
    using region_group_stores by blast
  have b: "\<forall>r \<in> set (regional_metrics data).
      Sales_Per_Store r = fround 0 (fdiv (Finite (reg_sales r)) (Finite (real (reg_stores r))))
      \<and> (1 \<le> reg_stores r \<longrightarrow>
           Sales_Per_Store r = Finite (round_dec 0 (reg_sales r / real (reg_stores r))))"
  proof
    fix r assume "r \<in> set (regional_metrics data)"
    then obtain k rows where "r = region_derive (region_group (k, rows))"
      by (rule regional_metrics_rows)
    then have f: "Sales_Per_Store r
        = fround 0 (fdiv (Finite (reg_sales r)) (Finite (real (reg_stores r))))"
      by (simp only: sales_per_store_formula)
    have "Sales_Per_Store r = Finite (round_dec 0 (reg_sales r / real (reg_stores r)))"
      if "1 \<le> reg_stores r"
      using that by (simp add: f)
    with f show "Sales_Per_Store r
        = fround 0 (fdiv (Finite (reg_sales r)) (Finite (real (reg_stores r))))
      \<and> (1 \<le> reg_stores r \<longrightarrow>
           Sales_Per_Store r = Finite (round_dec 0 (reg_sales r / real (reg_stores r))))"
      by blast
  qed
  have c: "\<forall>r \<in> set (chain_performance data).
      (\<exists>m. Avg_Margin r = Finite m
        \<and> ROI_Score r = Finite (round_dec 2 (m * of_int (Total_Customers r) / 100000)))
      \<and> Sales_Crores r = round_dec 1 (Total_Sales r / 10000000)"
  proof
    fix r assume "r \<in> set (chain_performance data)"
    then obtain k rows where g: "(k, rows) \<in> set (groupby chain_name data)"
      and r: "r = chain_derive (chain_round (chain_group (k, rows)))"
      by (auto simp: chain_performance_def chain_agg_def)
    have ne: "rows \<noteq> []" by (rule groupby_nonempty [OF g])
    show "(\<exists>m. Avg_Margin r = Finite m
        \<and> ROI_Score r = Finite (round_dec 2 (m * of_int (Total_Customers r) / 100000)))
      \<and> Sales_Crores r = round_dec 1 (Total_Sales r / 10000000)"
      using ne
      by (simp add: r chain_derive_def chain_round_def chain_row.extend_def
          col_mean_def mean_def)
  qed
  from a b c show ?thesis by (simp add: crores_def millions_def)
qed

theorem derived_metrics_rounded_formulas_witness:
  "map (\<lambda>r. (reg_sales r, reg_stores r, Sales_Per_Store r)) (regional_metrics three_store_rows)
     = [(100, 3, Finite (round_dec 0 (100 / 3)))]
   \<and> map (\<lambda>r. (Total_Sales r, Avg_Margin r, Total_Customers r, Sales_Crores r, ROI_Score r))
       (chain_performance two_chain_rows)
     = [(37400000, Finite (13 / 2), 60000, 37 / 10, Finite (39 / 10))]
   \<and> crores 37400000 = 374 / 100 \<and> millions 37400000 = 374 / 10"
proof -
  have t: "map (\<lambda>r. (reg_sales r, reg_stores r)) (regional_metrics three_store_rows)
     = [(100, 3)]"
    by (simp add: regional_metrics_def region_agg_def region_derive_def
        region_row.extend_def groupby_def group_keys_def group_rows_def col_sum_def
        col_sum_int_def nunique_def three_store_rows_def base_row_def round_dec_def
        rint_def Let_def)
  have u: "map (\<lambda>r. (Total_Sales r, Avg_Margin r, Total_Customers r))
       (chain_performance two_chain_rows) = [(37400000, Finite (13 / 2), 60000)]"
    by (simp add: chain_performance_def chain_agg_def chain_derive_def chain_round_def
        chain_row.extend_def groupby_def group_keys_def group_rows_def col_sum_def
        col_sum_int_def col_mean_def mean_def nunique_def two_chain_rows_def base_row_def
        round_dec_def rint_def Let_def)
  from t obtain r where r: "regional_metrics three_store_rows = [r]"
    "reg_sales r = 100" "reg_stores r = 3" by auto
  from u obtain c where c: "chain_performance two_chain_rows = [c]"
    "Total_Sales c = 37400000" "Avg_Margin c = Finite (13 / 2)" "Total_Customers c = 60000"
    by auto
  note regional = derived_metrics_rounded_formulas [of three_store_rows 37400000]
  note chains = derived_metrics_rounded_formulas [of two_chain_rows 37400000]
  have "r \<in> set (regional_metrics three_store_rows)" by (simp add: r(1))
  with regional have "1 \<le> reg_stores r \<longrightarrow>
      Sales_Per_Store r = Finite (round_dec 0 (reg_sales r / real (reg_stores r)))"
    by blast
  then have sps: "Sales_Per_Store r = Finite (round_dec 0 (100 / 3))"
    by (simp add: r(2,3))
  have "c \<in> set (chain_performance two_chain_rows)" by (simp add: c(1))
  with chains obtain m where m: "Avg_Margin c = Finite m"
    and roi: "ROI_Score c = Finite (round_dec 2 (m * of_int (Total_Customers c) / 100000))"
    and sc: "Sales_Crores c = round_dec 1 (Total_Sales c / 10000000)"
    by blast
  from m c(3) have m': "m = 13 / 2" by simp
  have roi': "ROI_Score c = Finite (39 / 10)"
    by (simp add: roi m' c(4) round_dec_def rint_def Let_def)
  have sc': "Sales_Crores c = 37 / 10"
    by (simp add: sc c(2) round_dec_def rint_def Let_def)
  have cm: "crores 37400000 = 374 / 100 \<and> millions 37400000 = 374 / 10"
    using chains by simp
  show ?thesis
    using sps roi' sc' cm by (simp add: r c)
qed

section \<open>Mean of row margins and margin of the totals\<close>

lemma chain_group_margin:
  assumes "rows \<noteq> []"
  shows "Avg_Margin (chain_group (k, rows))
    = Finite (sum_list (map net_margin_pct rows) / real (length rows))"
  using assms by (simp add: col_mean_def mean_def)

text \<open>
  Claim C1. The overall report divides the sum of \<^verbatim>\<open>net_profit\<close> by the sum of
  \<^verbatim>\<open>sales_amount\<close> and multiplies by 100 (on the dataset without rows the division raises),
  the chain table reduces \<^verbatim>\<open>net_margin_pct\<close> by its arithmetic mean over the rows of the
  chain, and the two are computed from different columns: the margin of the totals does
  not change when the row margins change, the mean of the row margins does not change
  when sales and profits change. On the three rows of chain A (sales 100, 200, 300,
  profits 10, 10, 15, row margins 10, 5, 5) the totals are 600 and 35, the margin of the
  totals is 35/600*100 (5.833...), the mean of the row margins is 20/3 (6.667 to three
  decimals), and the two differ. The table that \<^verbatim>\<open>financial_analysis\<close> returns holds the
  same reductions rounded to two decimals (600, 35 and 6.67).
\<close>

theorem margins_independent_and_scenario:
  "total_revenue data = sum_list (map sales_amount data)
   \<and> total_profit data = sum_list (map net_profit data)
   \<and> (data \<noteq> [] \<longrightarrow>
        overall_margin data =
          Inr (fmul (fdiv (Finite (sum_list (map net_profit data)))
                      (Finite (sum_list (map sales_amount data)))) (Finite 100))
        \<and> (sum_list (map sales_amount data) \<noteq> 0 \<longrightarrow>
             overall_margin data =
               Inr (Finite (sum_list (map net_profit data)
                             / sum_list (map sales_amount data) * 100)))
        \<and> avg_margin data = Finite (sum_list (map net_margin_pct data) / real (length data)))
   \<and> overall_margin [] = Inl ZeroDivisionError
   \<and> (\<forall>(k, rows) \<in> set (groupby chain_name data).
        rows = filter (\<lambda>r. chain_name r = Some k) data
        \<and> Avg_Margin (chain_group (k, rows))
            = Finite (sum_list (map net_margin_pct rows) / real (length rows)))
   \<and> chain_agg data = map chain_group (groupby chain_name data)
   \<and> set (map Chain (chain_agg data)) = {k. Some k \<in> chain_name ` set data}
   \<and> distinct (map Chain (chain_agg data))
   \<and> overall_margin (map (\<lambda>r. r\<lparr>net_margin_pct := g r\<rparr>) data) = overall_margin data
   \<and> map Avg_Margin (chain_agg (map (\<lambda>r. r\<lparr>sales_amount := s r, net_profit := p r\<rparr>) data))
       = map Avg_Margin (chain_agg data)
   \<and> total_revenue chain_A_rows = 600
   \<and> total_profit chain_A_rows = 35
   \<and> overall_margin chain_A_rows = Inr (Finite (35 / 600 * 100))
   \<and> avg_margin chain_A_rows = Finite (20 / 3)
   \<and> map (\<lambda>r. (Chain r, Total_Sales r, Total_Profit r, Avg_Margin r)) (chain_agg chain_A_rows)
       = [(''A'', 600, 35, Finite (20 / 3))]
   \<and> map (\<lambda>r. (Chain r, Total_Sales r, Total_Profit r, Avg_Margin r))
         (chain_performance chain_A_rows)
       = [(''A'', 600, 35, Finite (667 / 100))]
   \<and> \<bar>35 / 600 * 100 - 5833 / 1000\<bar> < (1 / 1000 :: real)
   \<and> \<bar>20 / 3 - 6667 / 1000\<bar> < (1 / 1000 :: real)
   \<and> overall_margin chain_A_rows \<noteq> Inr (avg_margin chain_A_rows)"
proof -
  have t: "total_revenue data = sum_list (map sales_amount data)"
    "total_profit data = sum_list (map net_profit data)"
    by (simp_all add: total_revenue_def total_profit_def col_sum_def)
  have o: "overall_margin data =
          Inr (fmul (fdiv (Finite (sum_list (map net_profit data)))
                      (Finite (sum_list (map sales_amount data)))) (Finite 100))
        \<and> (sum_list (map sales_amount data) \<noteq> 0 \<longrightarrow>
             overall_margin data =
               Inr (Finite (sum_list (map net_profit data)
                             / sum_list (map sales_amount data) * 100)))
        \<and> avg_margin data = Finite (sum_list (map net_margin_pct data) / real (length data))"
    if "data \<noteq> []"
    using that by (simp add: overall_margin_def t avg_margin_def col_mean_def mean_def)
  have e: "overall_margin [] = Inl ZeroDivisionError"
    by (simp add: overall_margin_def)
  have grp: "\<forall>(k, rows) \<in> set (groupby chain_name data).
        rows = filter (\<lambda>r. chain_name r = Some k) data
        \<and> Avg_Margin (chain_group (k, rows))
            = Finite (sum_list (map net_margin_pct rows) / real (length rows))"
  proof (intro ballI, clarify)
    fix k rows assume g: "(k, rows) \<in> set (groupby chain_name data)"
    show "rows = filter (\<lambda>r. chain_name r = Some k) data
        \<and> Avg_Margin (chain_group (k, rows))
            = Finite (sum_list (map net_margin_pct rows) / real (length rows))"
      using groupby_rows [OF g] chain_group_margin [OF groupby_nonempty [OF g]] by blast
  qed
  have a: "overall_margin (map (\<lambda>r. r\<lparr>net_margin_pct := g r\<rparr>) data) = overall_margin data"
    by (simp add: overall_margin_def total_profit_def total_revenue_def col_sum_def comp_def)
  have b: "map Avg_Margin (chain_agg (map (\<lambda>r. r\<lparr>sales_amount := s r, net_profit := p r\<rparr>) data))
       = map Avg_Margin (chain_agg data)"
    by (auto simp add: chain_agg_def groupby_map col_mean_def comp_def)
  have d: "total_revenue chain_A_rows = 600" "total_profit chain_A_rows = 35"
    by (simp_all add: total_revenue_def total_profit_def col_sum_def chain_A_rows_def base_row_def)
  have ne: "chain_A_rows \<noteq> []" by (simp add: chain_A_rows_def)
  have om: "overall_margin chain_A_rows = Inr (Finite (35 / 600 * 100))"
    using ne by (simp add: overall_margin_def d)
  have f: "avg_margin chain_A_rows = Finite (20 / 3)"
    by (simp add: avg_margin_def col_mean_def mean_def chain_A_rows_def base_row_def)
  have g: "chain_agg chain_A_rows =
     [\<lparr>Chain = ''A'', Total_Sales = 600, Avg_Sales = Finite 200, Total_Profit = 35,
       Avg_Margin = Finite (20 / 3), Total_Customers = 0, Store_Count = 1\<rparr>]"
    by (simp add: chain_agg_def groupby_def group_keys_def group_rows_def col_mean_def
        mean_def col_sum_def col_sum_int_def nunique_def chain_A_rows_def base_row_def)
  have h: "map (\<lambda>r. (Chain r, Total_Sales r, Total_Profit r, Avg_Margin r))
         (chain_performance chain_A_rows) = [(''A'', 600, 35, Finite (667 / 100))]"
    by (simp add: chain_performance_def g chain_round_def chain_derive_def
        chain_row.extend_def round_dec_def rint_def Let_def)
  have ca: "chain_agg data = map chain_group (groupby chain_name data)"
    by (simp add: chain_agg_def)
  have "map Chain (chain_agg data) = group_keys chain_name data"
    by (simp add: chain_agg_def groupby_def comp_def)
  then have ck: "set (map Chain (chain_agg data)) = {k. Some k \<in> chain_name ` set data}"
    "distinct (map Chain (chain_agg data))"
    by (simp_all only: group_keys_set group_keys_distinct)
  have ar: "\<bar>35 / 600 * 100 - 5833 / 1000\<bar> < (1 / 1000 :: real)"
    "\<bar>20 / 3 - 6667 / 1000\<bar> < (1 / 1000 :: real)"
    by simp_all
  have df: "overall_margin chain_A_rows \<noteq> Inr (avg_margin chain_A_rows)"
    by (simp add: om f)
  have gm: "map (\<lambda>r. (Chain r, Total_Sales r, Total_Profit r, Avg_Margin r)) (chain_agg chain_A_rows)
       = [(''A'', 600, 35, Finite (20 / 3))]"
    by (simp add: g)
  from t o e grp ca ck a b d om f gm h ar df show ?thesis by blast
qed

theorem margins_independent_and_scenario_witness:
  "overall_margin chain_A_rows = Inr (Finite (35 / 6))
   \<and> avg_margin chain_A_rows = Finite (20 / 3)
   \<and> overall_margin loss_rows = Inr NegInf"
proof -
  have ne: "chain_A_rows \<noteq> []" "loss_rows \<noteq> []"
    by (simp_all add: chain_A_rows_def loss_rows_def)
  have s: "sum_list (map sales_amount chain_A_rows) = 600"
    "sum_list (map net_profit chain_A_rows) = 35"
    "sum_list (map net_margin_pct chain_A_rows) = 20" "length chain_A_rows = 3"
    "sum_list (map sales_amount loss_rows) = 0" "sum_list (map net_profit loss_rows) = - 5"
    by (simp_all add: chain_A_rows_def loss_rows_def base_row_def)
  note c = margins_independent_and_scenario [of chain_A_rows]
  note l = margins_independent_and_scenario [of loss_rows]
  from c ne(1) have "overall_margin chain_A_rows =
      Inr (fmul (fdiv (Finite (sum_list (map net_profit chain_A_rows)))
                      (Finite (sum_list (map sales_amount chain_A_rows)))) (Finite 100))"
    and "avg_margin chain_A_rows
      = Finite (sum_list (map net_margin_pct chain_A_rows) / real (length chain_A_rows))"
    by blast+
  then have 1: "overall_margin chain_A_rows = Inr (Finite (35 / 6))"
    and 2: "avg_margin chain_A_rows = Finite (20 / 3)"
    by (simp_all add: s)
  from l ne(2) have "overall_margin loss_rows =
      Inr (fmul (fdiv (Finite (sum_list (map net_profit loss_rows)))
                      (Finite (sum_list (map sales_amount loss_rows)))) (Finite 100))"
    by blast
  then have 3: "overall_margin loss_rows = Inr NegInf" by (simp add: s)
  from 1 2 3 show ?thesis by blast
qed

section \<open>Ratios over a zero sum of sales\<close>

lemma monthly_row_margin:
  assumes "r \<in> set (monthly_trends rnd data)"
  shows "m_profit_margin r
    = fround 2 (fmul (fdiv (Finite (m_profit r)) (Finite (m_sales r))) (Finite 100))"
  using assms by (auto simp add: monthly_trends_def Let_def month_row.extend_def)

lemma monthly_sums:
  "map (\<lambda>r. (m_sales r, m_profit r)) (monthly_trends rnd data)
     = map (\<lambda>(k, rows). (col_sum sales_amount rows, col_sum net_profit rows))
         (groupby year_month_key data)"
proof -
  define tab where "tab = monthly_agg data"
  define sg where "sg = growth_pct rnd (map m_sales tab)"
  define cg where "cg = growth_pct rnd (map (\<lambda>r. of_int (m_customers r)) tab)"
  have l: "length (zip sg cg) = length tab"
    by (simp add: sg_def cg_def growth_pct_length)
  have "map (\<lambda>r. (m_sales r, m_profit r)) (monthly_trends rnd data)
      = map (\<lambda>x. (m_sales (fst x), m_profit (fst x))) (zip tab (zip sg cg))"
    by (simp add: monthly_trends_def Let_def tab_def sg_def cg_def
        month_row.extend_def case_prod_unfold)
  also have "\<dots> = map (\<lambda>r. (m_sales r, m_profit r)) (map fst (zip tab (zip sg cg)))"
    by (simp add: comp_def)
  also have "\<dots> = map (\<lambda>r. (m_sales r, m_profit r)) tab"
    using l by simp
  also have "\<dots> = map (\<lambda>(k, rows). (col_sum sales_amount rows, col_sum net_profit rows))
         (groupby year_month_key data)"
    by (auto simp add: tab_def monthly_agg_def)
  finally show ?thesis .
qed

text \<open>
  Claim C2, as stated, fails: the claim has every ratio over a zero sum of sales
  evaluate to NaN. For one row with sales 0 and profit -5 the sum of sales is zero, and
  the profit margin of the region table, that of the store table and that of the monthly
  table are all minus infinity, which is not NaN.
\<close>

theorem zero_sales_margin_counterexample:
  "col_sum sales_amount loss_rows = 0
   \<and> map Profit_Margin (regional_metrics loss_rows) = [NegInf]
   \<and> map profit_margin (store_efficiency loss_rows) = [NegInf]
   \<and> map m_profit_margin (monthly_trends (\<lambda>x. x) loss_rows) = [NegInf]
   \<and> map Profit_Margin (regional_metrics loss_rows) \<noteq> [NaN]
   \<and> map profit_margin (store_efficiency loss_rows) \<noteq> [NaN]
   \<and> map m_profit_margin (monthly_trends (\<lambda>x. x) loss_rows) \<noteq> [NaN]"
  by (simp add: loss_rows_def base_row_def col_sum_def regional_metrics_def region_agg_def
      region_derive_def region_row.extend_def store_efficiency_def store_agg_def
      store_derive_def store_row.extend_def groupby_def group_keys_def group_rows_def
      col_sum_int_def col_mean_def mean_def nunique_def round_dec_def rint_def Let_def
      store_key_def year_month_key_def monthly_trends_def monthly_agg_def
      month_row.extend_def growth_pct_def pct_change_def shift1_def)

text \<open>
  Claim C2, amended. For every group whose sum of \<^verbatim>\<open>sales_amount\<close> is zero, every derived
  ratio that divides by that sum (the profit margin of the region table, of the store
  table and of the monthly table) is not a finite number, so neither zero nor any other
  substitute, and the computation has no error result: it is NaN when the profit that is
  divided (the sum of \<^verbatim>\<open>net_profit\<close>, in the region table rounded to a whole number) is
  zero as well, plus infinity when that profit is positive, minus infinity when it is
  negative.
\<close>

theorem zero_sales_margin_not_finite:
  "regional_metrics data = map (\<lambda>g. region_derive (region_group g)) (groupby region data)
   \<and> store_efficiency data
       = map (\<lambda>g. store_derive (store_group g)) (groupby store_key data)
   \<and> map (\<lambda>r. (m_sales r, m_profit r)) (monthly_trends rnd data)
       = map (\<lambda>(k, rows). (col_sum sales_amount rows, col_sum net_profit rows))
           (groupby year_month_key data)
   \<and> (\<forall>(k, rows) \<in> set (groupby region data).
      col_sum sales_amount rows = 0 \<longrightarrow>
      Profit_Margin (region_derive (region_group (k, rows))) =
        (let p = round_dec 0 (col_sum net_profit rows)
         in if 0 < p then PosInf else if p < 0 then NegInf else NaN))
   \<and> (\<forall>(k, rows) \<in> set (groupby store_key data).
      col_sum sales_amount rows = 0 \<longrightarrow>
      profit_margin (store_derive (store_group (k, rows))) =
        (let p = col_sum net_profit rows
         in if 0 < p then PosInf else if p < 0 then NegInf else NaN))
   \<and> (\<forall>r \<in> set (monthly_trends rnd data).
      m_sales r = 0 \<longrightarrow>
      m_profit_margin r =
        (let p = m_profit r
         in if 0 < p then PosInf else if p < 0 then NegInf else NaN))"
proof -
  have a: "regional_metrics data
      = map (\<lambda>g. region_derive (region_group g)) (groupby region data)"
    "store_efficiency data = map (\<lambda>g. store_derive (store_group g)) (groupby store_key data)"
    by (simp_all add: regional_metrics_def region_agg_def store_efficiency_def store_agg_def)
  have b: "\<forall>(k, rows) \<in> set (groupby region data).
      col_sum sales_amount rows = 0 \<longrightarrow>
      Profit_Margin (region_derive (region_group (k, rows))) =
        (let p = round_dec 0 (col_sum net_profit rows)
         in if 0 < p then PosInf else if p < 0 then NegInf else NaN)"
    by (auto simp add: region_derive_def region_row.extend_def Let_def)
  have c: "\<forall>(k, rows) \<in> set (groupby store_key data).
      col_sum sales_amount rows = 0 \<longrightarrow>
      profit_margin (store_derive (store_group (k, rows))) =
        (let p = col_sum net_profit rows
         in if 0 < p then PosInf else if p < 0 then NegInf else NaN)"
    by (auto simp add: store_derive_def store_row.extend_def Let_def)
  have d: "\<forall>r \<in> set (monthly_trends rnd data).
      m_sales r = 0 \<longrightarrow>
      m_profit_margin r =
        (let p = m_profit r
         in if 0 < p then PosInf else if p < 0 then NegInf else NaN)"
    by (auto simp add: monthly_row_margin Let_def)
  from a b c d monthly_sums [of rnd data] show ?thesis by blast
qed

theorem zero_sales_margin_not_finite_witness:
  "groupby region loss_rows = [(''North'', loss_rows)]
   \<and> col_sum sales_amount loss_rows = 0
   \<and> Profit_Margin (region_derive (region_group (''North'', loss_rows))) = NegInf
   \<and> groupby store_key loss_rows = [((''S1'', ''A'', ''Metro''), loss_rows)]
   \<and> profit_margin (store_derive (store_group ((''S1'', ''A'', ''Metro''), loss_rows))) = NegInf
   \<and> map (\<lambda>r. (m_sales r, m_profit r)) (monthly_trends (\<lambda>x. x) loss_rows) = [(0, - 5)]
   \<and> map m_profit_margin (monthly_trends (\<lambda>x. x) loss_rows) = [NegInf]"
proof -
  have g1: "groupby region loss_rows = [(''North'', loss_rows)]"
    by (simp add: groupby_def group_keys_def group_rows_def loss_rows_def base_row_def)
  have g2: "groupby store_key loss_rows = [((''S1'', ''A'', ''Metro''), loss_rows)]"
    by (simp add: groupby_def group_keys_def group_rows_def loss_rows_def base_row_def
        store_key_def)
  have g3: "groupby year_month_key loss_rows = [((2023, 1), loss_rows)]"
    by (simp add: groupby_def group_keys_def group_rows_def loss_rows_def base_row_def
        year_month_key_def)
  have z: "col_sum sales_amount loss_rows = 0"
    by (simp add: col_sum_def loss_rows_def base_row_def)
  have p: "col_sum net_profit loss_rows = - 5"
    by (simp add: col_sum_def loss_rows_def base_row_def)
  have r: "round_dec 0 (- 5) = - 5"
    using rint_of_int [of "- 5"] by (simp add: round_dec_def)
  note t = zero_sales_margin_not_finite [of loss_rows "\<lambda>x. x"]
  from t have m: "map (\<lambda>r. (m_sales r, m_profit r)) (monthly_trends (\<lambda>x. x) loss_rows)
      = [(0, - 5)]"
    by (simp add: g3 z p)
  then obtain q where q: "monthly_trends (\<lambda>x. x) loss_rows = [q]" "m_sales q = 0"
    "m_profit q = - 5"
    by auto
  then have "q \<in> set (monthly_trends (\<lambda>x. x) loss_rows)" by simp
  with t q(2) have "m_profit_margin q =
        (let p = m_profit q
         in if 0 < p then PosInf else if p < 0 then NegInf else NaN)"
    by blast
  then have mq: "m_profit_margin q = NegInf" by (simp add: q(3))
  from t g1 g2 z have "Profit_Margin (region_derive (region_group (''North'', loss_rows))) = NegInf
      \<and> profit_margin (store_derive (store_group ((''S1'', ''A'', ''Metro''), loss_rows))) = NegInf"
    by (simp add: p r Let_def)
  with g1 g2 z m mq show ?thesis by (simp add: q(1))
qed

section \<open>The t-test on an empty tier\<close>

text \<open>
  Claim C3, as stated, fails: the claim has the test step end in a descriptive error
  when a tier filter selects no row. On a dataset whose only row is of tier Tier_2 both
  filters select nothing, and the step completes: statistic NaN, p-value NaN, and the
  report line says Not Significant.
\<close>

theorem tier_test_counterexample:
  "filter (\<lambda>r. tier r = Some ''Metro'') tier2_rows = []
   \<and> filter (\<lambda>r. tier r = Some ''Tier_1'') tier2_rows = []
   \<and> tier_test any_student tier2_rows
       = Inr \<lparr>t_stat = NaN, p_value = NaN, verdict = ''Not Significant''\<rparr>"
  by (simp add: tier2_rows_def base_row_def tier_test_def tier_sales_def ttest_ind_def
      flt_def)

text \<open>
  Claim C3, amended. The test step ends in an error for the dataset without rows and for
  no other dataset, and that error is the \<^verbatim>\<open>AttributeError\<close> of the library call, not a
  report of an empty group. For every dataset with rows in which the exact-match filter
  for tier Metro or for tier Tier_1 selects zero rows, the step completes with NaN for
  the statistic and for the p-value, and since no comparison with NaN holds, it reports
  Not Significant.
\<close>

theorem tier_test_empty_group:
  "tier_test student [] = Inl AttributeError
   \<and> ((\<exists>e. tier_test student data = Inl e) \<longleftrightarrow> data = [])
   \<and> (data \<noteq> [] \<longrightarrow> (\<exists>rep. tier_test student data = Inr rep))
   \<and> (data \<noteq> []
        \<and> (filter (\<lambda>r. tier r = Some ''Metro'') data = []
             \<or> filter (\<lambda>r. tier r = Some ''Tier_1'') data = [])
        \<longrightarrow> tier_test student data
          = Inr \<lparr>t_stat = NaN, p_value = NaN, verdict = ''Not Significant''\<rparr>)"
  by (auto simp add: tier_test_def tier_sales_def ttest_ind_def flt_def Let_def
      split: prod.splits)

theorem tier_test_empty_group_witness:
  "[base_row\<lparr>tier := Some ''Tier_1''\<rparr>] \<noteq> []
   \<and> filter (\<lambda>r. tier r = Some ''Metro'') [base_row\<lparr>tier := Some ''Tier_1''\<rparr>] = []
   \<and> tier_test any_student [base_row\<lparr>tier := Some ''Tier_1''\<rparr>]
       = Inr \<lparr>t_stat = NaN, p_value = NaN, verdict = ''Not Significant''\<rparr>"
proof -
  have e: "filter (\<lambda>r. tier r = Some ''Metro'') [base_row\<lparr>tier := Some ''Tier_1''\<rparr>] = []"
    by simp
  have n: "[base_row\<lparr>tier := Some ''Tier_1''\<rparr>] \<noteq> []" by simp
  from e n tier_test_empty_group [of any_student "[base_row\<lparr>tier := Some ''Tier_1''\<rparr>]"]
  show ?thesis by blast
qed

section \<open>Group sums and shares\<close>

lemma sum_list_zero_key:
  assumes "a \<notin> set ks"
  shows "sum_list (map (\<lambda>k. if a = k then c else 0) ks) = (0 :: real)"
  using assms by (induction ks) auto

lemma sum_list_single_key:
  assumes "distinct ks" "a \<in> set ks"
  shows "sum_list (map (\<lambda>k. if a = k then c else 0) ks) = (c :: real)"
  using assms by (induction ks) (auto simp: sum_list_zero_key)

lemma sum_over_keys:
  assumes "distinct ks" "{k. Some k \<in> key ` set data} \<subseteq> set ks"
  shows "sum_list (map (\<lambda>k. sum_list (map f (filter (\<lambda>r. key r = Some k) data))) ks)
    = sum_list (map f (filter (\<lambda>r. key r \<noteq> None) (data :: 'r list)) :: real list)"
  using assms(2)
proof (induction data)
  case Nil
  then show ?case by simp
next
  case (Cons r rs)
  from Cons.prems have sub: "{k. Some k \<in> key ` set rs} \<subseteq> set ks" by auto
  show ?case
  proof (cases "key r")
    case None
    then have "sum_list (map (\<lambda>k. sum_list (map f (filter (\<lambda>r. key r = Some k) (r # rs)))) ks)
        = sum_list (map (\<lambda>k. sum_list (map f (filter (\<lambda>r. key r = Some k) rs))) ks)"
      by simp
    with None Cons.IH [OF sub] show ?thesis by simp
  next
    case (Some a)
    with Cons.prems have a: "a \<in> set ks" by auto
    have "sum_list (map (\<lambda>k. sum_list (map f (filter (\<lambda>r. key r = Some k) (r # rs)))) ks)
        = sum_list (map (\<lambda>k. (if a = k then f r else 0)
            + sum_list (map f (filter (\<lambda>r. key r = Some k) rs))) ks)"
      by (rule arg_cong [where f = sum_list]) (auto simp add: Some)
    also have "\<dots> = sum_list (map (\<lambda>k. if a = k then f r else 0) ks)
        + sum_list (map (\<lambda>k. sum_list (map f (filter (\<lambda>r. key r = Some k) rs))) ks)"
      by (simp add: sum_list_addf)
    also have "\<dots> = f r + sum_list (map f (filter (\<lambda>r. key r \<noteq> None) rs))"
      using Cons.IH [OF sub] sum_list_single_key [OF assms(1) a, of "f r"] by simp
    finally show ?thesis by (simp add: Some)
  qed
qed

lemma groupby_sum:
  "sum_list (map (\<lambda>(k, rows). col_sum f rows) (groupby key data))
     = col_sum f (filter (\<lambda>r. key r \<noteq> None) data)"
  using sum_over_keys [of "group_keys key data" key data f]
  by (simp add: groupby_def group_rows_def col_sum_def comp_def group_keys_set
      group_keys_distinct)

lemma filter_all_present:
  assumes "\<forall>r \<in> set data. key r \<noteq> None"
  shows "filter (\<lambda>r. key r \<noteq> None) data = data"
  using assms by (induction data) auto

lemma rint_error: "\<bar>of_int (rint x) - x\<bar> \<le> 1 / 2"
proof -
  have "of_int \<lfloor>x\<rfloor> \<le> x" "x < of_int \<lfloor>x\<rfloor> + 1" by linarith+
  then show ?thesis by (auto simp add: rint_def Let_def)
qed

lemma round_dec_error: "\<bar>round_dec d x - x\<bar> \<le> 1 / (2 * 10 ^ d)"
proof -
  have "\<bar>round_dec d x - x\<bar> = \<bar>of_int (rint (x * 10 ^ d)) - x * 10 ^ d\<bar> / 10 ^ d"
    by (simp add: round_dec_def field_simps abs_divide flip: abs_mult)
  also have "\<dots> \<le> (1 / 2) / 10 ^ d"
    by (intro divide_right_mono rint_error) simp
  finally show ?thesis by simp
qed

lemma sum_list_error:
  assumes "\<And>x. x \<in> set xs \<Longrightarrow> \<bar>f x - g x\<bar> \<le> (c :: real)"
  shows "\<bar>sum_list (map f xs) - sum_list (map g xs)\<bar> \<le> real (length xs) * c"
  using assms
proof (induction xs)
  case Nil
  then show ?case by simp
next
  case (Cons x xs)
  have "\<bar>f x - g x\<bar> \<le> c" by (simp add: Cons.prems)
  moreover have "\<bar>sum_list (map f xs) - sum_list (map g xs)\<bar> \<le> real (length xs) * c"
    by (rule Cons.IH) (simp add: Cons.prems)
  ultimately show ?case by (simp add: algebra_simps)
qed

lemma sum_list_scaled:
  "sum_list (map (\<lambda>r. f r / t * c) xs) = sum_list (map f xs) / t * (c :: real)"
  by (induction xs) (simp_all add: add_divide_distrib distrib_right)

lemma category_group_sales:
  "cat_sales (category_group g) = round_dec 2 (col_sum sales_amount (snd g))"
  by (cases g) simp

lemma category_sales_column:
  "map cat_sales (category_metrics data) = map cat_sales (category_agg data)"
  by (simp add: category_metrics_def Let_def category_row.extend_def comp_def)

lemma category_sales_total:
  "col_sum cat_sales (category_metrics data) = col_sum cat_sales (category_agg data)"
  by (simp add: col_sum_def category_sales_column)

lemma category_share_column:
  "map Sales_Share (category_metrics data)
    = map (\<lambda>r. share_pct (cat_sales r) (col_sum cat_sales (category_agg data)))
        (category_agg data)"
  by (simp add: category_metrics_def Let_def category_row.extend_def comp_def)

lemma share_pct_finite:
  assumes "whole \<noteq> 0"
  shows "share_pct part whole = Finite (round_dec 1 (part / whole * 100))"
  using assms by (simp add: share_pct_def)

lemma share_pct_zero: "share_pct part 0 \<notin> range Finite"
  by (auto simp add: share_pct_def)

text \<open>
  Claim C6, as stated, fails in both parts. A row whose category cell is empty belongs
  to no group, since the grouping drops missing keys, while the ungrouped total of
  line 49 counts it: of two rows with sales 1, one without category, the group sums add
  up to 1 and the total is 2. With three categories of equal sales every share is 33.3
  and the shares add up to 99.9, because each share is rounded to one decimal; with no
  sales at all the total is zero and the only share is NaN, so the shares do not add up
  to 100 within any tolerance.
\<close>

theorem sales_share_counterexample:
  "sum_list (map (\<lambda>(k, rows). col_sum sales_amount rows)
       (groupby category uncategorised_rows)) = 1
   \<and> total_revenue uncategorised_rows = 2
   \<and> map Sales_Share (category_metrics equal_category_rows)
     = [Finite (333 / 10), Finite (333 / 10), Finite (333 / 10)]
   \<and> 333 / 10 + 333 / 10 + 333 / 10 = (999 / 10 :: real)
   \<and> map cat_sales (category_metrics [base_row]) = [0]
   \<and> map Sales_Share (category_metrics [base_row]) = [NaN]"
  by (simp add: category_metrics_def category_agg_def share_pct_def Let_def
      category_row.extend_def groupby_def group_keys_def group_rows_def col_sum_def
      col_sum_int_def col_mean_def mean_def equal_category_rows_def base_row_def
      round_dec_def rint_def uncategorised_rows_def total_revenue_def)

text \<open>
  Claim C6, amended. For every dataset and every grouping key, the sums of
  \<^verbatim>\<open>sales_amount\<close> over the groups add up to the sum over the rows whose key is not
  missing (exactly, in exact arithmetic), hence to the sum over the whole dataset when no
  row misses its key. The category table holds these sums rounded to two decimals, so
  its column total is within 0.005 times the number of categories of the sum over the
  rows that have a category. When that column total is not zero, every \<^verbatim>\<open>Sales_Share_%\<close>
  is a finite number, the share of the column total in percent rounded to one decimal,
  and the shares add up to 100 within 0.05 times the number of categories. When the
  column total is zero, no share is a finite number.
\<close>

theorem group_sums_and_shares:
  "sum_list (map (\<lambda>(k, rows). col_sum sales_amount rows) (groupby key data))
     = col_sum sales_amount (filter (\<lambda>r. key r \<noteq> None) data)
   \<and> ((\<forall>r \<in> set data. key r \<noteq> None) \<longrightarrow>
        sum_list (map (\<lambda>(k, rows). col_sum sales_amount rows) (groupby key data))
          = total_revenue data)
   \<and> \<bar>col_sum cat_sales (category_metrics data)
        - col_sum sales_amount (filter (\<lambda>r. category r \<noteq> None) data)\<bar>
       \<le> real (length (category_metrics data)) * (5 / 1000)
   \<and> (col_sum cat_sales (category_metrics data) \<noteq> 0 \<longrightarrow>
        (\<exists>shares. map Sales_Share (category_metrics data) = map Finite shares
           \<and> shares = map (\<lambda>r. round_dec 1
                 (cat_sales r / col_sum cat_sales (category_metrics data) * 100))
               (category_metrics data)
           \<and> \<bar>sum_list shares - 100\<bar> \<le> real (length (category_metrics data)) * (5 / 100)))
   \<and> (col_sum cat_sales (category_metrics data) = 0 \<longrightarrow>
        (\<forall>r \<in> set (category_metrics data). Sales_Share r \<notin> range Finite))"
proof -
  define tab where "tab = category_agg data"
  define T where "T = col_sum cat_sales tab"
  define S where "S = col_sum sales_amount (filter (\<lambda>r. category r \<noteq> None) data)"
  have len: "length (category_metrics data) = length tab"
    by (simp add: category_metrics_def Let_def tab_def)
  have tot: "col_sum cat_sales (category_metrics data) = T"
    by (simp add: category_sales_total T_def tab_def)
  have a: "sum_list (map (\<lambda>(k, rows). col_sum sales_amount rows) (groupby key data))
     = col_sum sales_amount (filter (\<lambda>r. key r \<noteq> None) data)"
    by (rule groupby_sum)
  have a2: "sum_list (map (\<lambda>(k, rows). col_sum sales_amount rows) (groupby key data))
          = total_revenue data" if "\<forall>r \<in> set data. key r \<noteq> None"
    using filter_all_present [OF that] by (simp add: groupby_sum total_revenue_def)
  have b: "\<bar>T - S\<bar> \<le> real (length tab) * (5 / 1000)"
  proof -
    let ?g = "groupby category data"
    have l: "length tab = length ?g" by (simp add: tab_def category_agg_def)
    have t: "T = sum_list (map (\<lambda>g. round_dec 2 (col_sum sales_amount (snd g))) ?g)"
      by (simp add: T_def tab_def category_agg_def col_sum_def [of cat_sales] comp_def
          category_group_sales)
    have u: "S = sum_list (map (\<lambda>g. col_sum sales_amount (snd g)) ?g)"
      using groupby_sum [of sales_amount category data]
      by (simp add: S_def case_prod_unfold)
    have "\<bar>sum_list (map (\<lambda>g. round_dec 2 (col_sum sales_amount (snd g))) ?g)
        - sum_list (map (\<lambda>g. col_sum sales_amount (snd g)) ?g)\<bar>
        \<le> real (length ?g) * (5 / 1000)"
      by (rule sum_list_error) (use round_dec_error [of 2] in simp)
    then show ?thesis by (simp add: t u l)
  qed
  have c: "\<exists>shares. map Sales_Share (category_metrics data) = map Finite shares
           \<and> shares = map (\<lambda>r. round_dec 1 (cat_sales r / T * 100)) (category_metrics data)
           \<and> \<bar>sum_list shares - 100\<bar> \<le> real (length tab) * (5 / 100)"
    if nz: "T \<noteq> 0"
  proof -
    define shares where "shares = map (\<lambda>r. round_dec 1 (cat_sales r / T * 100)) tab"
    have s1: "map Sales_Share (category_metrics data) = map Finite shares"
      using nz by (simp add: category_share_column shares_def share_pct_finite
          flip: tab_def T_def)
    have s2: "shares = map (\<lambda>r. round_dec 1 (cat_sales r / T * 100)) (category_metrics data)"
    proof -
      have "map (\<lambda>r. round_dec 1 (cat_sales r / T * 100)) (category_metrics data)
          = map (\<lambda>x. round_dec 1 (x / T * 100)) (map cat_sales (category_metrics data))"
        by (simp add: comp_def)
      also have "\<dots> = map (\<lambda>x. round_dec 1 (x / T * 100)) (map cat_sales tab)"
        by (simp only: category_sales_column tab_def)
      finally show ?thesis by (simp add: shares_def comp_def)
    qed
    have "sum_list (map (\<lambda>r. cat_sales r / T * 100) tab)
        = sum_list (map cat_sales tab) / T * 100"
      by (rule sum_list_scaled)
    also have "sum_list (map cat_sales tab) = T"
      by (simp add: T_def col_sum_def)
    finally have hundred: "sum_list (map (\<lambda>r. cat_sales r / T * 100) tab) = 100"
      using nz by simp
    have "\<bar>sum_list (map (\<lambda>r. round_dec 1 (cat_sales r / T * 100)) tab)
        - sum_list (map (\<lambda>r. cat_sales r / T * 100) tab)\<bar> \<le> real (length tab) * (5 / 100)"
      by (rule sum_list_error) (use round_dec_error [of 1] in simp)
    then have s3: "\<bar>sum_list shares - 100\<bar> \<le> real (length tab) * (5 / 100)"
      by (simp only: shares_def hundred)
    from s1 s2 s3 show ?thesis by blast
  qed
  have d: "\<forall>r \<in> set (category_metrics data). Sales_Share r \<notin> range Finite" if z: "T = 0"
  proof -
    have "\<forall>x \<in> set (map Sales_Share (category_metrics data)). x \<notin> range Finite"
      using share_pct_zero by (simp add: category_share_column z flip: tab_def T_def)
    then show ?thesis by simp
  qed
  show ?thesis
    using a a2 b c d unfolding tot len S_def by blast
qed

theorem group_sums_and_shares_witness:
  "None \<notin> set (map category equal_category_rows)
   \<and> sum_list (map (\<lambda>(k, rows). col_sum sales_amount rows)
        (groupby category equal_category_rows)) = 3
   \<and> sum_list (map (\<lambda>(k, rows). col_sum sales_amount rows)
        (groupby category uncategorised_rows)) = 1
   \<and> col_sum cat_sales (category_metrics equal_category_rows) = 3
   \<and> map Sales_Share (category_metrics equal_category_rows)
       = [Finite (333 / 10), Finite (333 / 10), Finite (333 / 10)]
   \<and> \<bar>(333 / 10 + 333 / 10 + 333 / 10) - 100\<bar> \<le> (3 * (5 / 100) :: real)
   \<and> col_sum cat_sales (category_metrics [base_row]) = 0
   \<and> (\<exists>r. category_metrics [base_row] = [r] \<and> Sales_Share r \<notin> range Finite)"
proof -
  have p: "None \<notin> set (map category equal_category_rows)"
    by (simp add: equal_category_rows_def base_row_def)
  then have p': "\<forall>r \<in> set equal_category_rows. category r \<noteq> None"
    by (metis imageI list.set_map)
  have tr: "total_revenue equal_category_rows = 3"
    by (simp add: total_revenue_def col_sum_def equal_category_rows_def base_row_def)
  have u: "col_sum sales_amount (filter (\<lambda>r. category r \<noteq> None) uncategorised_rows) = 1"
    by (simp add: col_sum_def uncategorised_rows_def base_row_def)
  have t: "map cat_sales (category_metrics equal_category_rows) = [1, 1, 1]"
    by (simp add: category_sales_column category_agg_def groupby_def group_keys_def
        group_rows_def col_sum_def equal_category_rows_def base_row_def round_dec_def
        rint_def Let_def)
  then have tot: "col_sum cat_sales (category_metrics equal_category_rows) = 3"
    by (simp add: col_sum_def)
  from t have len: "length (category_metrics equal_category_rows) = 3"
    by (metis length_map length_Cons list.size(3) numeral_3_eq_3)
  from t obtain r1 r2 r3 where rs: "category_metrics equal_category_rows = [r1, r2, r3]"
    "cat_sales r1 = 1" "cat_sales r2 = 1" "cat_sales r3 = 1"
    by auto
  have rd: "round_dec 1 (1 / 3 * 100) = 333 / 10"
    by (simp add: round_dec_def rint_def Let_def)
  note e = group_sums_and_shares [of category equal_category_rows]
  from e p' tr have g: "sum_list (map (\<lambda>(k, rows). col_sum sales_amount rows)
        (groupby category equal_category_rows)) = 3"
    by simp
  from group_sums_and_shares [of category uncategorised_rows] u
  have g1: "sum_list (map (\<lambda>(k, rows). col_sum sales_amount rows)
        (groupby category uncategorised_rows)) = 1"
    by simp
  from e tot
  obtain shares where
    s: "map Sales_Share (category_metrics equal_category_rows) = map Finite shares"
    "shares = map (\<lambda>r. round_dec 1 (cat_sales r / 3 * 100)) (category_metrics equal_category_rows)"
    "\<bar>sum_list shares - 100\<bar> \<le> real (length (category_metrics equal_category_rows)) * (5 / 100)"
    by auto
  from s(2) have sh: "shares = [333 / 10, 333 / 10, 333 / 10]"
    by (simp only: rs list.map rd)
  have z: "map cat_sales (category_metrics [base_row]) = [0]"
    by (simp add: category_sales_column category_agg_def groupby_def group_keys_def
        group_rows_def col_sum_def base_row_def)
  then have zt: "col_sum cat_sales (category_metrics [base_row]) = 0"
    by (simp add: col_sum_def)
  from z obtain r0 where r0: "category_metrics [base_row] = [r0]" by auto
  from group_sums_and_shares [of category "[base_row]"] zt
  have "\<forall>r \<in> set (category_metrics [base_row]). Sales_Share r \<notin> range Finite"
    by blast
  with r0 have zs: "\<exists>r. category_metrics [base_row] = [r] \<and> Sales_Share r \<notin> range Finite"
    by simp
  show ?thesis
    using p g g1 s(1,3) tot zt zs by (simp add: sh len)
qed

section \<open>Top and bottom stores\<close>

lemma fkey_inj: "fkey a = fkey b \<longleftrightarrow> a = b"
  by (cases a; cases b) simp_all

lemma fneg_inj: "fneg a = fneg b \<longleftrightarrow> a = b"
  by (cases a; cases b) simp_all

lemma fneg_NaN: "fneg a = NaN \<longleftrightarrow> a = NaN"
  by (cases a) simp_all

lemma fkey_fneg_le:
  assumes "a \<noteq> NaN" "b \<noteq> NaN"
  shows "fkey (fneg a) \<le> fkey (fneg b) \<longleftrightarrow> fkey b \<le> fkey a"
  using assms by (cases a; cases b) (auto simp: less_eq_prod_def)

lemma nsmallest_length: "length (nsmallest n col rows) = min n (length rows)"
proof -
  have "length (filter (\<lambda>r. col r \<noteq> NaN) rows) + length (filter (\<lambda>r. col r = NaN) rows)
      = length rows"
    using sum_length_filter_compl [of "\<lambda>r. col r \<noteq> NaN" rows] by simp
  then show ?thesis by (simp add: nsmallest_def)
qed

lemma nlargest_length: "length (nlargest n col rows) = min n (length rows)"
  by (simp add: nlargest_def nsmallest_length)

text \<open>
  The ranking of which \<open>nsmallest\<close> takes the first rows: every row once, rows of
  the same value in their original order.
\<close>

lemma nsmallest_ranking:
  "\<exists>ranking. nsmallest n col rows = take n ranking
     \<and> mset ranking = mset rows
     \<and> (\<forall>v. filter (\<lambda>r. col r = v) ranking = filter (\<lambda>r. col r = v) rows)
     \<and> (\<forall>i j. i < j \<and> j < length ranking \<longrightarrow>
           \<not> fgt (col (ranking ! i)) (col (ranking ! j))
           \<and> (col (ranking ! i) = NaN \<longrightarrow> col (ranking ! j) = NaN))"
proof -
  define S where "S = sort_key (\<lambda>r. fkey (col r)) (filter (\<lambda>r. col r \<noteq> NaN) rows)"
  define N where "N = filter (\<lambda>r. col r = NaN) rows"
  have a: "nsmallest n col rows = take n (S @ N)"
    by (simp add: nsmallest_def S_def N_def)
  have b: "mset (S @ N) = mset rows"
    using multiset_partition [of "mset rows" "\<lambda>r. col r \<noteq> NaN"] by (simp add: S_def N_def)
  have sS: "\<forall>r \<in> set S. col r \<noteq> NaN" and sN: "\<forall>r \<in> set N. col r = NaN"
    by (simp_all add: S_def N_def)
  have c: "filter (\<lambda>r. col r = v) (S @ N) = filter (\<lambda>r. col r = v) rows" for v
  proof (cases "v = NaN")
    case True
    have "filter (\<lambda>r. col r = NaN) S = []" using sS by (simp add: filter_empty_conv)
    moreover have "filter (\<lambda>r. col r = NaN) N = N" using sN by (simp add: filter_id_conv)
    ultimately show ?thesis by (simp add: True N_def)
  next
    case False
    have "filter (\<lambda>r. col r = v) N = []" using sN False by (auto simp: filter_empty_conv)
    moreover have "filter (\<lambda>r. col r = v) S
        = filter (\<lambda>r. fkey (col r) = fkey v) (filter (\<lambda>r. col r \<noteq> NaN) rows)"
      unfolding S_def by (simp only: fkey_inj [symmetric] sort_key_stable)
    moreover have "\<dots> = filter (\<lambda>r. col r = v) rows"
      using False by (auto simp add: fkey_inj intro: filter_cong)
    ultimately show ?thesis by simp
  qed
  have srt: "sorted (map (\<lambda>r. fkey (col r)) S)"
    by (simp add: S_def)
  have d: "\<not> fgt (col ((S @ N) ! i)) (col ((S @ N) ! j))
           \<and> (col ((S @ N) ! i) = NaN \<longrightarrow> col ((S @ N) ! j) = NaN)"
    if ij: "i < j" "j < length (S @ N)" for i j
  proof (cases "j < length S")
    case True
    with ij have i: "i < length S" by simp
    from srt have "fkey (col (S ! i)) \<le> fkey (col (S ! j))"
      using sorted_nth_mono [of "map (\<lambda>r. fkey (col r)) S" i j] ij True i by simp
    moreover have "col (S ! i) \<noteq> NaN" "col (S ! j) \<noteq> NaN"
      using sS i True by simp_all
    ultimately have "\<not> fgt (col (S ! i)) (col (S ! j))"
      by (cases "col (S ! i)"; cases "col (S ! j)") (auto simp: less_eq_prod_def)
    with True i \<open>col (S ! i) \<noteq> NaN\<close> show ?thesis by (simp add: nth_append)
  next
    case False
    with ij have "(S @ N) ! j \<in> set N"
      by (simp add: nth_append)
    with sN have "col ((S @ N) ! j) = NaN" by simp
    then show ?thesis
      by (cases "col ((S @ N) ! i)") simp_all
  qed
  from a b c d show ?thesis by blast
qed

lemma fgt_fneg: "fgt (fneg a) (fneg b) = fgt b a"
  by (cases a; cases b) simp_all

lemma nlargest_ranking:
  "\<exists>ranking. nlargest n col rows = take n ranking
     \<and> mset ranking = mset rows
     \<and> (\<forall>v. filter (\<lambda>r. col r = v) ranking = filter (\<lambda>r. col r = v) rows)
     \<and> (\<forall>i j. i < j \<and> j < length ranking \<longrightarrow>
           \<not> fgt (col (ranking ! j)) (col (ranking ! i))
           \<and> (col (ranking ! i) = NaN \<longrightarrow> col (ranking ! j) = NaN))"
proof -
  from nsmallest_ranking [of n "\<lambda>r. fneg (col r)" rows] obtain ranking where
    a: "nlargest n col rows = take n ranking" "mset ranking = mset rows"
    and b: "\<forall>v. filter (\<lambda>r. fneg (col r) = v) ranking = filter (\<lambda>r. fneg (col r) = v) rows"
    and c: "\<forall>i j. i < j \<and> j < length ranking \<longrightarrow>
           \<not> fgt (fneg (col (ranking ! i))) (fneg (col (ranking ! j)))
           \<and> (fneg (col (ranking ! i)) = NaN \<longrightarrow> fneg (col (ranking ! j)) = NaN)"
    unfolding nlargest_def by blast
  have "filter (\<lambda>r. col r = v) ranking = filter (\<lambda>r. col r = v) rows" for v
    using b [rule_format, of "fneg v"] by (simp only: fneg_inj)
  moreover have "\<forall>i j. i < j \<and> j < length ranking \<longrightarrow>
           \<not> fgt (col (ranking ! j)) (col (ranking ! i))
           \<and> (col (ranking ! i) = NaN \<longrightarrow> col (ranking ! j) = NaN)"
    using c by (simp only: fgt_fneg fneg_NaN)
  ultimately show ?thesis using a by blast
qed

lemma fkey_fneg_less:
  assumes "a \<noteq> NaN" "b \<noteq> NaN"
  shows "fkey (fneg a) < fkey (fneg b) \<longleftrightarrow> fkey b < fkey a"
  using assms by (cases a; cases b) (auto simp: less_prod_def)

text \<open>
  Among the first \<open>k\<close> rows of a sorted table, every row has fewer than \<open>k\<close> rows
  strictly before it in the order, hence fewer than \<open>k\<close> values of any column there.
\<close>

lemma take_sorted_few_below:
  fixes f :: "'a \<Rightarrow> 'b :: linorder"
  assumes s: "sorted (map f xs)" and x: "x \<in> set (take k xs)"
  shows "card (g ` {r \<in> set xs. f r < f x}) < k"
proof -
  from x obtain i where i: "i < k" "i < length xs" "x = xs ! i"
    by (auto simp add: in_set_conv_nth)
  have sub: "{r \<in> set xs. f r < f x} \<subseteq> set (take i xs)"
  proof
    fix r
    assume "r \<in> {r \<in> set xs. f r < f x}"
    then obtain j where j: "j < length xs" "r = xs ! j" "f r < f x"
      by (auto simp add: in_set_conv_nth)
    have ji: "j < i"
    proof (rule ccontr)
      assume "\<not> j < i"
      then have "i \<le> j" by simp
      with s j(1) have "f (xs ! i) \<le> f (xs ! j)"
        using sorted_nth_mono [of "map f xs" i j] by simp
      with j(2,3) i(3) show False by simp
    qed
    have "take i xs ! j = xs ! j" using ji by simp
    moreover have "j < length (take i xs)" using ji i(2) by simp
    ultimately show "r \<in> set (take i xs)"
      using j(2) by (metis nth_mem)
  qed
  have "card (g ` {r \<in> set xs. f r < f x}) \<le> card (g ` set (take i xs))"
    by (rule card_mono) (use sub in auto)
  also have "\<dots> \<le> card (set (take i xs))"
    by (rule card_image_le) simp
  also have "\<dots> \<le> length (take i xs)"
    by (rule card_length)
  also have "\<dots> \<le> i" by simp
  finally show ?thesis using i(1) by simp
qed

lemma top_bottom_disjoint:
  assumes c: "2 * k \<le> card (col ` set rows - {NaN})"
  shows "set (nlargest k col rows) \<inter> set (nsmallest k col rows) = {}"
proof (rule ccontr)
  define F where "F = filter (\<lambda>r. col r \<noteq> NaN) rows"
  define A where "A = sort_key (\<lambda>r. fkey (col r)) F"
  define D where "D = sort_key (\<lambda>r. fkey (fneg (col r))) F"
  define W where "W = col ` set rows - {NaN}"
  have W: "W = col ` set F" by (auto simp add: W_def F_def)
  have "card W \<le> card (set F)" unfolding W by (rule card_image_le) simp
  also have "\<dots> \<le> length F" by (rule card_length)
  finally have lk: "k \<le> length F" using c by (simp add: W_def)
  have F2: "filter (\<lambda>r. fneg (col r) \<noteq> NaN) rows = F"
    by (simp add: F_def fneg_NaN)
  have lo: "nsmallest k col rows = take k A"
    using lk by (simp add: nsmallest_def A_def F_def)
  have hi: "nlargest k col rows = take k D"
    using lk by (simp add: nlargest_def nsmallest_def F2 D_def)
  have nn: "\<forall>r \<in> set F. col r \<noteq> NaN" by (simp add: F_def)
  assume "set (nlargest k col rows) \<inter> set (nsmallest k col rows) \<noteq> {}"
  then obtain x where x: "x \<in> set (take k D)" "x \<in> set (take k A)"
    by (auto simp add: lo hi)
  from x(2) have "x \<in> set A" by (rule in_set_takeD)
  then have xF: "x \<in> set F" by (simp add: A_def)
  define L where "L = col ` {r \<in> set A. fkey (col r) < fkey (col x)}"
  define U where "U = col ` {r \<in> set D. fkey (fneg (col r)) < fkey (fneg (col x))}"
  have cL: "card L < k"
    unfolding L_def by (rule take_sorted_few_below [OF _ x(2)]) (simp add: A_def)
  have cU: "card U < k"
    unfolding U_def by (rule take_sorted_few_below [OF _ x(1)]) (simp add: D_def)
  have sub: "W \<subseteq> L \<union> {col x} \<union> U"
  proof
    fix w
    assume "w \<in> W"
    then obtain r where r: "r \<in> set F" "w = col r" using W by auto
    consider "fkey (col r) < fkey (col x)" | "fkey (col r) = fkey (col x)"
      | "fkey (col x) < fkey (col r)"
      by (rule linorder_cases)
    then show "w \<in> L \<union> {col x} \<union> U"
    proof cases
      case 1
      with r have "w \<in> L" by (auto simp add: L_def A_def)
      then show ?thesis by simp
    next
      case 2
      then have "w = col x" by (simp add: fkey_inj r(2))
      then show ?thesis by simp
    next
      case 3
      with nn r(1) xF have "fkey (fneg (col r)) < fkey (fneg (col x))"
        by (simp add: fkey_fneg_less)
      with r have "w \<in> U" by (auto simp add: U_def D_def)
      then show ?thesis by simp
    qed
  qed
  have fin: "finite (L \<union> {col x} \<union> U)" by (simp add: L_def U_def)
  have "card W \<le> card (L \<union> {col x} \<union> U)"
    by (rule card_mono [OF fin sub])
  also have "\<dots> \<le> card (L \<union> {col x}) + card U" by (rule card_Un_le)
  also have "\<dots> \<le> card L + card {col x} + card U"
    using card_Un_le [of L "{col x}"] by simp
  finally have "card W < 2 * k" using cL cU by simp
  with c show False by (simp add: W_def)
qed

lemma store_row_key:
  "(\<lambda>r. (st_store r, st_chain r, st_tier r)) (store_derive (store_group (k, rows))) = k"
  by (simp add: store_derive_def store_row.extend_def)

lemma store_efficiency_keys:
  "map (\<lambda>r. (st_store r, st_chain r, st_tier r)) (store_efficiency data)
     = group_keys store_key data"
  by (simp add: store_efficiency_def store_agg_def groupby_def comp_def store_derive_def
      store_row.extend_def)

lemma store_efficiency_distinct: "distinct (store_efficiency data)"
proof -
  have "distinct (map (\<lambda>r. (st_store r, st_chain r, st_tier r)) (store_efficiency data))"
    by (simp only: store_efficiency_keys group_keys_distinct)
  then show ?thesis by (simp add: distinct_map)
qed

lemma selection_subset: "set (nsmallest n col rows) \<subseteq> set rows"
proof -
  have "set (nsmallest n col rows)
      \<subseteq> set (sort_key (\<lambda>r. fkey (col r)) (filter (\<lambda>r. col r \<noteq> NaN) rows)
          @ filter (\<lambda>r. col r = NaN) rows)"
    unfolding nsmallest_def by (rule set_take_subset)
  then show ?thesis by auto
qed

lemma selection_distinct:
  assumes "distinct rows"
  shows "distinct (nsmallest n col rows)"
proof -
  have "distinct (sort_key (\<lambda>r. fkey (col r)) (filter (\<lambda>r. col r \<noteq> NaN) rows)
          @ filter (\<lambda>r. col r = NaN) rows)"
    using assms by auto
  then show ?thesis
    unfolding nsmallest_def by (rule distinct_take)
qed

lemma partition_once:
  assumes "distinct rows" "distinct hi" "distinct lo"
    "set hi \<subseteq> set rows" "set lo \<subseteq> set rows" "set hi \<inter> set lo = {}"
  shows "distinct (hi @ lo @ filter (\<lambda>r. r \<notin> set hi \<and> r \<notin> set lo) rows)
    \<and> set (hi @ lo @ filter (\<lambda>r. r \<notin> set hi \<and> r \<notin> set lo) rows) = set rows"
  using assms by auto

text \<open>
  Claim C7, as stated, fails. With eleven stores of the same margin the five top stores
  and the five bottom stores are the same five stores, the first five of the table: more
  than ten stores, and the two selections are not disjoint. A table of one store yields
  one store, not five, and on the dataset without rows the selection raises
  \<^verbatim>\<open>TypeError\<close>.
\<close>

theorem top_bottom_counterexample:
  "length (store_efficiency tied_store_rows) = 11
   \<and> top_stores tied_store_rows = Inr (take 5 (store_efficiency tied_store_rows))
   \<and> bottom_stores tied_store_rows = Inr (take 5 (store_efficiency tied_store_rows))
   \<and> map st_store (take 5 (store_efficiency tied_store_rows))
       = [''S01'', ''S02'', ''S03'', ''S04'', ''S05'']
   \<and> top_stores [base_row] = Inr (store_efficiency [base_row])
   \<and> length (store_efficiency [base_row]) = 1
   \<and> top_stores [] = Inl TypeError"
  by code_simp

text \<open>
  Claim C7, amended. On the dataset without rows both selections raise \<^verbatim>\<open>TypeError\<close>. On
  every other dataset the top and the bottom selection each return 5 stores when the
  store table has at least 5 rows, and all of them otherwise, every store at most once.
  Each is the beginning of a ranking of the whole table by profit margin (no later row
  has a larger margin for the top selection, a smaller one for the bottom selection,
  rows without a margin come last) in which the rows of equal margin keep the order they
  have in the table: ties are broken by the original order, for both selections from
  the top of the table. When the margins of the table take at least 10 different values,
  NaN not counted, the two selections are disjoint; and whenever they are disjoint, the
  selected stores together with the unselected ones are every store of the table
  exactly once.
\<close>

theorem top_bottom_selection:
  "top_stores [] = Inl TypeError \<and> bottom_stores [] = Inl TypeError
   \<and> distinct (store_efficiency data)
   \<and> (data \<noteq> [] \<longrightarrow>
       (\<exists>hi lo. top_stores data = Inr hi \<and> bottom_stores data = Inr lo
          \<and> length hi = min 5 (length (store_efficiency data))
          \<and> length lo = min 5 (length (store_efficiency data))
          \<and> distinct hi \<and> distinct lo
          \<and> set hi \<subseteq> set (store_efficiency data) \<and> set lo \<subseteq> set (store_efficiency data)
          \<and> (\<exists>ranking. hi = take 5 ranking
               \<and> mset ranking = mset (store_efficiency data)
               \<and> (\<forall>v. filter (\<lambda>r. profit_margin r = v) ranking
                      = filter (\<lambda>r. profit_margin r = v) (store_efficiency data))
               \<and> (\<forall>i j. i < j \<and> j < length ranking \<longrightarrow>
                     \<not> fgt (profit_margin (ranking ! j)) (profit_margin (ranking ! i))
                     \<and> (profit_margin (ranking ! i) = NaN
                          \<longrightarrow> profit_margin (ranking ! j) = NaN)))
          \<and> (\<exists>ranking. lo = take 5 ranking
               \<and> mset ranking = mset (store_efficiency data)
               \<and> (\<forall>v. filter (\<lambda>r. profit_margin r = v) ranking
                      = filter (\<lambda>r. profit_margin r = v) (store_efficiency data))
               \<and> (\<forall>i j. i < j \<and> j < length ranking \<longrightarrow>
                     \<not> fgt (profit_margin (ranking ! i)) (profit_margin (ranking ! j))
                     \<and> (profit_margin (ranking ! i) = NaN
                          \<longrightarrow> profit_margin (ranking ! j) = NaN)))
          \<and> (10 \<le> card (profit_margin ` set (store_efficiency data) - {NaN}) \<longrightarrow>
               set hi \<inter> set lo = {})
          \<and> (set hi \<inter> set lo = {} \<longrightarrow>
               distinct (hi @ lo
                 @ filter (\<lambda>r. r \<notin> set hi \<and> r \<notin> set lo) (store_efficiency data))
               \<and> set (hi @ lo
                 @ filter (\<lambda>r. r \<notin> set hi \<and> r \<notin> set lo) (store_efficiency data))
                  = set (store_efficiency data))))"
proof -
  define rows where "rows = store_efficiency data"
  define hi where "hi = nlargest 5 profit_margin rows"
  define lo where "lo = nsmallest 5 profit_margin rows"
  have e: "top_stores [] = Inl TypeError" "bottom_stores [] = Inl TypeError"
    by (simp_all add: top_stores_def bottom_stores_def)
  have dr: "distinct rows" unfolding rows_def by (rule store_efficiency_distinct)
  have r: "top_stores data = Inr hi" "bottom_stores data = Inr lo" if "data \<noteq> []"
    using that by (simp_all add: top_stores_def bottom_stores_def hi_def lo_def rows_def)
  have a: "length hi = min 5 (length rows)" "length lo = min 5 (length rows)"
    by (simp_all add: hi_def lo_def nlargest_length nsmallest_length)
  have s: "distinct hi" "distinct lo" "set hi \<subseteq> set rows" "set lo \<subseteq> set rows"
    using dr
    by (simp_all add: hi_def lo_def nlargest_def selection_distinct selection_subset)
  have b: "\<exists>ranking. hi = take 5 ranking
        \<and> mset ranking = mset rows
        \<and> (\<forall>v. filter (\<lambda>r. profit_margin r = v) ranking
               = filter (\<lambda>r. profit_margin r = v) rows)
        \<and> (\<forall>i j. i < j \<and> j < length ranking \<longrightarrow>
              \<not> fgt (profit_margin (ranking ! j)) (profit_margin (ranking ! i))
              \<and> (profit_margin (ranking ! i) = NaN \<longrightarrow> profit_margin (ranking ! j) = NaN))"
    unfolding hi_def by (rule nlargest_ranking)
  have c: "\<exists>ranking. lo = take 5 ranking
        \<and> mset ranking = mset rows
        \<and> (\<forall>v. filter (\<lambda>r. profit_margin r = v) ranking
               = filter (\<lambda>r. profit_margin r = v) rows)
        \<and> (\<forall>i j. i < j \<and> j < length ranking \<longrightarrow>
              \<not> fgt (profit_margin (ranking ! i)) (profit_margin (ranking ! j))
              \<and> (profit_margin (ranking ! i) = NaN \<longrightarrow> profit_margin (ranking ! j) = NaN))"
    unfolding lo_def by (rule nsmallest_ranking)
  have d: "set hi \<inter> set lo = {}" if "10 \<le> card (profit_margin ` set rows - {NaN})"
  proof -
    from that have "2 * 5 \<le> card (profit_margin ` set rows - {NaN})" by simp
    then show ?thesis unfolding hi_def lo_def by (rule top_bottom_disjoint)
  qed
  have p: "distinct (hi @ lo @ filter (\<lambda>r. r \<notin> set hi \<and> r \<notin> set lo) rows)
        \<and> set (hi @ lo @ filter (\<lambda>r. r \<notin> set hi \<and> r \<notin> set lo) rows) = set rows"
    if "set hi \<inter> set lo = {}"
    using dr s that by (rule partition_once)
  have "\<exists>hi lo. top_stores data = Inr hi \<and> bottom_stores data = Inr lo
          \<and> length hi = min 5 (length rows)
          \<and> length lo = min 5 (length rows)
          \<and> distinct hi \<and> distinct lo
          \<and> set hi \<subseteq> set rows \<and> set lo \<subseteq> set rows
          \<and> (\<exists>ranking. hi = take 5 ranking
               \<and> mset ranking = mset rows
               \<and> (\<forall>v. filter (\<lambda>r. profit_margin r = v) ranking
                      = filter (\<lambda>r. profit_margin r = v) rows)
               \<and> (\<forall>i j. i < j \<and> j < length ranking \<longrightarrow>
                     \<not> fgt (profit_margin (ranking ! j)) (profit_margin (ranking ! i))
                     \<and> (profit_margin (ranking ! i) = NaN
                          \<longrightarrow> profit_margin (ranking ! j) = NaN)))
          \<and> (\<exists>ranking. lo = take 5 ranking
               \<and> mset ranking = mset rows
               \<and> (\<forall>v. filter (\<lambda>r. profit_margin r = v) ranking
                      = filter (\<lambda>r. profit_margin r = v) rows)
               \<and> (\<forall>i j. i < j \<and> j < length ranking \<longrightarrow>
                     \<not> fgt (profit_margin (ranking ! i)) (profit_margin (ranking ! j))
                     \<and> (profit_margin (ranking ! i) = NaN
                          \<longrightarrow> profit_margin (ranking ! j) = NaN)))
          \<and> (10 \<le> card (profit_margin ` set rows - {NaN}) \<longrightarrow> set hi \<inter> set lo = {})
          \<and> (set hi \<inter> set lo = {} \<longrightarrow>
               distinct (hi @ lo @ filter (\<lambda>r. r \<notin> set hi \<and> r \<notin> set lo) rows)
               \<and> set (hi @ lo @ filter (\<lambda>r. r \<notin> set hi \<and> r \<notin> set lo) rows) = set rows)"
    if ne: "data \<noteq> []"
    apply (rule exI [of _ hi])
    apply (rule exI [of _ lo])
    apply (intro conjI impI)
    using r [OF ne] a s b c d p by blast+
  with e dr show ?thesis unfolding rows_def by blast
qed

theorem top_bottom_selection_witness:
  "ranked_store_rows \<noteq> []
   \<and> map profit_margin (store_efficiency ranked_store_rows)
       = map Finite [7, 3, 9, 1, 10, 2, 8, 4, 6, 5, 6, 5]
   \<and> card (profit_margin ` set (store_efficiency ranked_store_rows) - {NaN}) = 10
   \<and> (\<exists>hi lo. top_stores ranked_store_rows = Inr hi
        \<and> bottom_stores ranked_store_rows = Inr lo
        \<and> map st_store hi = [''S05'', ''S03'', ''S07'', ''S01'', ''S09'']
        \<and> map st_store lo = [''S04'', ''S06'', ''S02'', ''S08'', ''S10'']
        \<and> set hi \<inter> set lo = {}
        \<and> set (hi @ lo
             @ filter (\<lambda>r. r \<notin> set hi \<and> r \<notin> set lo) (store_efficiency ranked_store_rows))
           = set (store_efficiency ranked_store_rows))"
proof -
  have n: "ranked_store_rows \<noteq> []"
    by (simp add: ranked_store_rows_def)
  have m: "map profit_margin (store_efficiency ranked_store_rows)
       = map Finite [7, 3, 9, 1, 10, 2, 8, 4, 6, 5, 6, 5]"
    by code_simp
  have "profit_margin ` set (store_efficiency ranked_store_rows)
      = set (map profit_margin (store_efficiency ranked_store_rows))"
    by simp
  also have "\<dots> = set (map Finite [7, 3, 9, 1, 10, 2, 8, 4, 6, 5, 6, 5])"
    by (simp only: m)
  also have "\<dots> = {Finite 1, Finite 2, Finite 3, Finite 4, Finite 5, Finite 6, Finite 7,
      Finite 8, Finite 9, Finite 10}"
    by auto
  finally have k: "card (profit_margin ` set (store_efficiency ranked_store_rows) - {NaN}) = 10"
    by simp
  have t: "map_sum id (map st_store) (top_stores ranked_store_rows)
       = Inr [''S05'', ''S03'', ''S07'', ''S01'', ''S09'']"
    by code_simp
  have b: "map_sum id (map st_store) (bottom_stores ranked_store_rows)
       = Inr [''S04'', ''S06'', ''S02'', ''S08'', ''S10'']"
    by code_simp
  from top_bottom_selection [of ranked_store_rows] n k
  obtain hi lo where h: "top_stores ranked_store_rows = Inr hi"
    "bottom_stores ranked_store_rows = Inr lo"
    "set hi \<inter> set lo = {}"
    "set (hi @ lo
       @ filter (\<lambda>r. r \<notin> set hi \<and> r \<notin> set lo) (store_efficiency ranked_store_rows))
     = set (store_efficiency ranked_store_rows)"
    by auto
  from t h(1) have t': "map st_store hi = [''S05'', ''S03'', ''S07'', ''S01'', ''S09'']"
    by simp
  from b h(2) have b': "map st_store lo = [''S04'', ''S06'', ''S02'', ''S08'', ''S10'']"
    by simp
  have "\<exists>hi lo. top_stores ranked_store_rows = Inr hi
        \<and> bottom_stores ranked_store_rows = Inr lo
        \<and> map st_store hi = [''S05'', ''S03'', ''S07'', ''S01'', ''S09'']
        \<and> map st_store lo = [''S04'', ''S06'', ''S02'', ''S08'', ''S10'']
        \<and> set hi \<inter> set lo = {}
        \<and> set (hi @ lo
             @ filter (\<lambda>r. r \<notin> set hi \<and> r \<notin> set lo) (store_efficiency ranked_store_rows))
           = set (store_efficiency ranked_store_rows)"
    apply (rule exI [of _ hi])
    apply (rule exI [of _ lo])
    apply (intro conjI h t' b')
    done
  with n m k show ?thesis by (intro conjI)
qed

end
